theory Spec2Isabelle
  imports Main "HOL-Library.AList" "HOL-Library.Char_ord" "HOL-Library.List_Lexorder"
begin

section \<open>Strings and the regular expressions of the scraper\<close>

text \<open>
  Python strings are modelled as \<^typ>\<open>string\<close>: a character is a code point below 256, so
  the character classes below are the restrictions of Python's Unicode classes to that range.
\<close>

text \<open>\<^verbatim>\<open>str.isspace\<close> / the class \<^verbatim>\<open>\s\<close>: tab, line feed, vertical tab, form feed,
  carriage return, the four separators 0x1C-0x1F, space, NEL and the no-break space.\<close>

definition is_space :: "char \<Rightarrow> bool" where
  "is_space c \<longleftrightarrow> c \<in> set [CHR 0x09, CHR 0x0A, CHR 0x0B, CHR 0x0C, CHR 0x0D,
     CHR 0x1C, CHR 0x1D, CHR 0x1E, CHR 0x1F, CHR 0x20, CHR 0x85, CHR 0xA0]"

text \<open>The class \<^verbatim>\<open>\d\<close>.\<close>

definition is_digit :: "char \<Rightarrow> bool" where
  "is_digit c \<longleftrightarrow> c \<in> set ''0123456789''"

text \<open>\<^verbatim>\<open>s.strip()\<close>\<close>

definition strip :: "string \<Rightarrow> string" where
  "strip s = rev (dropWhile is_space (rev (dropWhile is_space s)))"

text \<open>\<^verbatim>\<open>s.lower()\<close>: the letters A-Z and the upper-case letters of Latin-1 (0xC0-0xDE without
  the multiplication sign 0xD7) move up by 32.\<close>

definition lower_char :: "char \<Rightarrow> char" where
  "lower_char c =
     (let n = (of_char c :: nat)
      in if (65 \<le> n \<and> n \<le> 90) \<or> (192 \<le> n \<and> n \<le> 222 \<and> n \<noteq> 215) then char_of (n + 32) else c)"

definition lower :: "string \<Rightarrow> string" where
  "lower s = map lower_char s"

text \<open>\<^verbatim>\<open>s.startswith(p)\<close>, \<^verbatim>\<open>s.endswith(p)\<close>, \<^verbatim>\<open>sub in s\<close> and \<^verbatim>\<open>s.split(':')[0]\<close>\<close>

definition startswith :: "string \<Rightarrow> string \<Rightarrow> bool" where
  "startswith s p \<longleftrightarrow> take (length p) s = p"

definition endswith :: "string \<Rightarrow> string \<Rightarrow> bool" where
  "endswith s p \<longleftrightarrow> length p \<le> length s \<and> drop (length s - length p) s = p"

fun contains :: "string \<Rightarrow> string \<Rightarrow> bool" where
  "contains sub [] \<longleftrightarrow> sub = []"
| "contains sub (c # cs) \<longleftrightarrow> startswith (c # cs) sub \<or> contains sub cs"

definition split_colon_first :: "string \<Rightarrow> string" where
  "split_colon_first s = takeWhile (\<lambda>c. c \<noteq> CHR '':'') s"

text \<open>\<^verbatim>\<open>sep.join(xs)\<close>\<close>

fun join :: "string \<Rightarrow> string list \<Rightarrow> string" where
  "join sep [] = []"
| "join sep [x] = x"
| "join sep (x # y # ys) = x @ sep @ join sep (y # ys)"

text \<open>\<^verbatim>\<open>int(s)\<close> on a string of decimal digits, and \<^verbatim>\<open>str(n)\<close> of a natural number
  (Python's integers are unbounded).\<close>

definition digit_val :: "char \<Rightarrow> nat" where
  "digit_val c = of_char c - 48"

definition int_of_digits :: "string \<Rightarrow> nat" where
  "int_of_digits s = foldl (\<lambda>n c. 10 * n + digit_val c) 0 s"

fun str_of_nat :: "nat \<Rightarrow> string" where
  "str_of_nat n =
     (if n < 10 then [''0123456789'' ! n]
      else str_of_nat (n div 10) @ [''0123456789'' ! (n mod 10)])"

text \<open>
  \<^verbatim>\<open>pattern.findall(s)\<close> for a pattern that matches no empty string: the anchored matcher
  \<open>m\<close> gives the length of the match at the head of its argument and the value \<^verbatim>\<open>findall\<close>
  reports for it. The scan goes left to right and resumes behind each match; the counter is
  the number of characters of the last match still to skip.
\<close>

fun findall :: "(string \<Rightarrow> (nat \<times> 'a) option) \<Rightarrow> nat \<Rightarrow> string \<Rightarrow> 'a list" where
  "findall m k [] = []"
| "findall m (Suc k) (c # cs) = findall m k cs"
| "findall m 0 (c # cs) =
     (case m (c # cs) of
        Some (n, v) \<Rightarrow> v # findall m (n - 1) cs
      | None \<Rightarrow> findall m 0 cs)"

text \<open>\<^verbatim>\<open>re.sub(pattern, repl, s)\<close> for such a pattern: every match is replaced.\<close>

fun re_sub :: "(string \<Rightarrow> (nat \<times> 'a) option) \<Rightarrow> string \<Rightarrow> nat \<Rightarrow> string \<Rightarrow> string" where
  "re_sub m repl k [] = []"
| "re_sub m repl (Suc k) (c # cs) = re_sub m repl k cs"
| "re_sub m repl 0 (c # cs) =
     (case m (c # cs) of
        Some (n, v) \<Rightarrow> repl @ re_sub m repl (n - 1) cs
      | None \<Rightarrow> c # re_sub m repl 0 cs)"

text \<open>\<^verbatim>\<open>pattern.search(s)\<close>: the leftmost match, if any.\<close>

fun re_search :: "(string \<Rightarrow> (nat \<times> 'a) option) \<Rightarrow> string \<Rightarrow> 'a option" where
  "re_search m [] = None"
| "re_search m (c # cs) =
     (case m (c # cs) of
        Some (n, v) \<Rightarrow> Some v
      | None \<Rightarrow> re_search m cs)"

text \<open>\<^verbatim>\<open>re.sub(r'[^\d.,]', '', s)\<close>: every character that is no digit, period or comma
  is deleted.\<close>

definition clean_price :: "string \<Rightarrow> string" where
  "clean_price s = filter (\<lambda>c. is_digit c \<or> c = CHR ''.'' \<or> c = CHR '','') s"

text \<open>The pattern \<^verbatim>\<open>(\$\d+(?:\.\d{2})?)\<close> at the head of a string: a dollar sign, the longest
  run of digits (at least one), then a period and two digits when they follow.\<close>

definition price_pattern :: "string \<Rightarrow> (nat \<times> string) option" where
  "price_pattern s =
     (case s of
        [] \<Rightarrow> None
      | c # rest \<Rightarrow>
          if c \<noteq> CHR ''$'' then None
          else
            (let ds = takeWhile is_digit rest; after = dropWhile is_digit rest
             in if ds = [] then None
                else
                  (case after of
                     p # a # b # _ \<Rightarrow>
                       if p = CHR ''.'' \<and> is_digit a \<and> is_digit b
                       then Some (length ds + 4, c # ds @ [p, a, b])
                       else Some (length ds + 1, c # ds)
                   | _ \<Rightarrow> Some (length ds + 1, c # ds))))"

text \<open>\<^verbatim>\<open>re.sub(r'^SKU:?\s*', '', s, flags=re.IGNORECASE)\<close>: a leading label, in any case, with
  its colon and the white space behind it, is removed.\<close>

definition drop_colon :: "string \<Rightarrow> string" where
  "drop_colon s = (case s of c # t \<Rightarrow> if c = CHR '':'' then t else s | [] \<Rightarrow> s)"

definition clean_sku :: "string \<Rightarrow> string" where
  "clean_sku s =
     (if lower (take 3 s) = ''sku'' then dropWhile is_space (drop_colon (drop 3 s)) else s)"

text \<open>The pattern \<^verbatim>\<open>SKU:?\s*([A-Za-z0-9-]+)\<close> at the head of a string; the value is the
  captured token.\<close>

definition is_sku_char :: "char \<Rightarrow> bool" where
  "is_sku_char c \<longleftrightarrow>
     c \<in> set ''ABCDEFGHIJKLMNOPQRSTUVWXYZabcdefghijklmnopqrstuvwxyz0123456789-''"

definition sku_pattern :: "string \<Rightarrow> (nat \<times> string) option" where
  "sku_pattern s =
     (if startswith s ''SKU'' then
        (let r = drop_colon (drop 3 s);
             sp = takeWhile is_space r;
             tok = takeWhile is_sku_char (dropWhile is_space r)
         in if tok = [] then None
            else Some (3 + (length (drop 3 s) - length r) + length sp + length tok, tok))
      else None)"

text \<open>The pattern \<^verbatim>\<open>page=(\d+)\<close> at the head of a string; the value is the captured digits.\<close>

definition pagination_pattern :: "string \<Rightarrow> (nat \<times> string) option" where
  "pagination_pattern s =
     (if startswith s ''page='' then
        (let ds = takeWhile is_digit (drop 5 s)
         in if ds = [] then None else Some (5 + length ds, ds))
      else None)"

section \<open>Documents\<close>

text \<open>
  A parsed element, as the scraper reads it: its tag name, its text, its attributes, the
  answers of \<^verbatim>\<open>select\<close> (a CSS selector, matches in document order) and \<^verbatim>\<open>find_all\<close>
  (a tag name) below it, and its serialisation \<^verbatim>\<open>str(tag)\<close>. The parsed page itself is
  such an element. The selector engine is the parser library's, so its answers are data of
  the document, not computed here.
\<close>

datatype tag = Tag
  (name: string)
  (get_text: string)
  (attrs: "string \<rightharpoonup> string")
  (select: "string \<Rightarrow> tag list")
  (find_all: "string \<Rightarrow> tag list")
  (markup: string)

text \<open>\<^verbatim>\<open>tag.select_one(selector)\<close>: the first element of \<^verbatim>\<open>tag.select(selector)\<close>.\<close>

definition select_one :: "tag \<Rightarrow> string \<Rightarrow> tag option" where
  "select_one t selector = (case select t selector of [] \<Rightarrow> None | e # _ \<Rightarrow> Some e)"

text \<open>Truth value of an attribute (or of a fetched page): not None and not empty.\<close>

definition truthy :: "string option \<Rightarrow> bool" where
  "truthy v \<longleftrightarrow> (case v of None \<Rightarrow> False | Some s \<Rightarrow> s \<noteq> [])"

text \<open>\<^verbatim>\<open>a or b\<close> on elements (an element is always true) and on attribute values.\<close>

definition or_elem :: "tag option \<Rightarrow> tag option \<Rightarrow> tag option" where
  "or_elem a b = (case a of Some e \<Rightarrow> Some e | None \<Rightarrow> b)"

definition or_str :: "string option \<Rightarrow> string option \<Rightarrow> string option" where
  "or_str a b = (if truthy a then a else b)"

text \<open>\<^verbatim>\<open>soup.find('meta', attrs={'name': 'description'})\<close>\<close>

definition find_meta_description :: "tag \<Rightarrow> tag option" where
  "find_meta_description soup =
     (case filter (\<lambda>t. attrs t ''name'' = Some ''description'') (find_all soup ''meta'') of
        [] \<Rightarrow> None
      | e # _ \<Rightarrow> Some e)"

section \<open>The scraper, its environment and the product dictionary\<close>

text \<open>
  What the scraper calls outside itself: the HTTP request (its answer may depend on the
  requests sent before, given as the list of their URLs; \<open>None\<close> is a
  \<^verbatim>\<open>RequestException\<close>, also raised for an error status), the HTML parser and
  \<^verbatim>\<open>urllib.parse.urljoin\<close>.
\<close>

record env =
  http_get :: "string list \<Rightarrow> string \<Rightarrow> string option"
  BeautifulSoup :: "string \<Rightarrow> tag"
  urljoin :: "string \<Rightarrow> string \<Rightarrow> string"

text \<open>
  The dictionary \<^verbatim>\<open>product\<close>: each of its eight keys is absent (\<open>None\<close>) or bound.
  The inner dictionary of specifications keeps its insertion order; a key written again keeps
  its place and takes the new value (\<^const>\<open>AList.update\<close>).
\<close>

record product =
  title :: "string option"
  price :: "string option"
  original_price :: "string option"
  sku :: "string option"
  description :: "string option"
  images :: "string list option"
  specifications :: "(string \<times> string) list option"
  url :: "string option"

definition empty_product :: product where
  "empty_product = \<lparr>title = None, price = None, original_price = None, sku = None,
     description = None, images = None, specifications = None, url = None\<rparr>"

text \<open>The object \<^verbatim>\<open>self\<close>; the request headers and the debug flag do not influence
  any value modelled here.\<close>

record scraper =
  base_url :: string
  all_products :: "product list"

definition init :: "string \<Rightarrow> scraper" where
  "init b = \<lparr>base_url = b, all_products = []\<rparr>"

text \<open>\<^verbatim>\<open>get_page_html\<close>: the page's text or None, and the request recorded.\<close>

definition get_page_html :: "env \<Rightarrow> string list \<Rightarrow> string \<Rightarrow> string option \<times> string list" where
  "get_page_html E fetched u = (http_get E fetched u, fetched @ [u])"

section \<open>The product page parser\<close>

subsection \<open>Title\<close>

definition title_selectors :: "string list" where
  \<open>title_selectors = [''h1.product-title'', ''h1.title'', ''h1.product-single__title'',
     ''h1[itemprop="name"]'', ''.product-title h1'', ''#product-title'']\<close>

fun title_loop :: "tag \<Rightarrow> string list \<Rightarrow> product \<Rightarrow> product" where
  "title_loop soup [] product = product"
| "title_loop soup (selector # rest) product =
     (case select_one soup selector of
        Some title_elem \<Rightarrow> product\<lparr>title := Some (strip (get_text title_elem))\<rparr>
      | None \<Rightarrow> title_loop soup rest product)"

definition extract_title :: "tag \<Rightarrow> product \<Rightarrow> product" where
  "extract_title soup product0 =
     (let product = title_loop soup title_selectors product0
      in if title product = None then
           (case find_all soup ''h1'' of
              h1 # _ \<Rightarrow> product\<lparr>title := Some (strip (get_text h1))\<rparr>
            | [] \<Rightarrow> product\<lparr>title := Some ''N/A''\<rparr>)
         else product)"

subsection \<open>Price\<close>

definition price_selectors :: "string list" where
  \<open>price_selectors = [''span.price-new'', ''.price'', ''.product-price'',
     ''span[itemprop="price"]'', ''.product-single__price'', ''#product-price'',
     ''div.price-box span.regular-price'']\<close>

fun price_loop :: "tag \<Rightarrow> string list \<Rightarrow> product \<Rightarrow> product" where
  "price_loop soup [] product = product"
| "price_loop soup (selector # rest) product =
     (case select_one soup selector of
        Some price_elem \<Rightarrow> product\<lparr>price := Some (clean_price (strip (get_text price_elem)))\<rparr>
      | None \<Rightarrow> price_loop soup rest product)"

definition extract_price :: "tag \<Rightarrow> product \<Rightarrow> product" where
  "extract_price soup product0 =
     (let product = price_loop soup price_selectors product0
      in if price product = None then
           (case findall price_pattern 0 (markup soup) of
              m # _ \<Rightarrow> product\<lparr>price := Some m\<rparr>
            | [] \<Rightarrow> product\<lparr>price := Some ''N/A''\<rparr>)
         else product)"

subsection \<open>Original price\<close>

definition original_price_selectors :: "string list" where
  "original_price_selectors = [''span.price-old'', ''.compare-price'',
     ''.product-single__price--compare'', ''.was-price'', ''span.old-price'']"

fun original_price_loop :: "tag \<Rightarrow> string list \<Rightarrow> product \<Rightarrow> product" where
  "original_price_loop soup [] product = product"
| "original_price_loop soup (selector # rest) product =
     (case select_one soup selector of
        Some orig_price_elem \<Rightarrow>
          product\<lparr>original_price := Some (clean_price (strip (get_text orig_price_elem)))\<rparr>
      | None \<Rightarrow> original_price_loop soup rest product)"

text \<open>\<^verbatim>\<open>product.get('price', 'N/A')\<close> is the default.\<close>

definition extract_original_price :: "tag \<Rightarrow> product \<Rightarrow> product" where
  "extract_original_price soup product0 =
     (let product = original_price_loop soup original_price_selectors product0
      in if original_price product = None then
           product\<lparr>original_price :=
             Some (case price product of Some p \<Rightarrow> p | None \<Rightarrow> ''N/A'')\<rparr>
         else product)"

subsection \<open>SKU\<close>

definition sku_selectors :: "string list" where
  \<open>sku_selectors = [''div.sku'', ''.product-sku'', ''span[itemprop="sku"]'',
     ''.product-single__sku'']\<close>

fun sku_loop :: "tag \<Rightarrow> string list \<Rightarrow> product \<Rightarrow> product" where
  "sku_loop soup [] product = product"
| "sku_loop soup (selector # rest) product =
     (case select_one soup selector of
        Some sku_elem \<Rightarrow> product\<lparr>sku := Some (clean_sku (strip (get_text sku_elem)))\<rparr>
      | None \<Rightarrow> sku_loop soup rest product)"

definition extract_sku :: "tag \<Rightarrow> product \<Rightarrow> product" where
  "extract_sku soup product0 =
     (let product = sku_loop soup sku_selectors product0
      in if sku product = None then
           (case findall sku_pattern 0 (markup soup) of
              m # _ \<Rightarrow> product\<lparr>sku := Some m\<rparr>
            | [] \<Rightarrow> product\<lparr>sku := Some ''N/A''\<rparr>)
         else product)"

subsection \<open>Description\<close>

definition description_selectors :: "string list" where
  \<open>description_selectors = [''div.product-description'', ''.description'',
     ''#product-description'', ''div[itemprop="description"]'',
     ''.product-single__description'', ''.product-description-container'']\<close>

fun description_loop :: "tag \<Rightarrow> string list \<Rightarrow> product \<Rightarrow> product" where
  "description_loop soup [] product = product"
| "description_loop soup (selector # rest) product =
     (case select_one soup selector of
        Some desc_elem \<Rightarrow> product\<lparr>description := Some (strip (get_text desc_elem))\<rparr>
      | None \<Rightarrow> description_loop soup rest product)"

definition extract_description :: "tag \<Rightarrow> product \<Rightarrow> product" where
  "extract_description soup product0 =
     (let product = description_loop soup description_selectors product0
      in if description product = None then
           (case find_meta_description soup of
              Some meta_desc \<Rightarrow>
                if truthy (attrs meta_desc ''content'')
                then product\<lparr>description := attrs meta_desc ''content''\<rparr>
                else product\<lparr>description := Some ''N/A''\<rparr>
            | None \<Rightarrow> product\<lparr>description := Some ''N/A''\<rparr>)
         else product)"

subsection \<open>Images\<close>

definition image_selectors :: "string list" where
  \<open>image_selectors = [''div.product-image-main img'', ''.product-featured-image img'',
     ''.product-single__media img'', ''img[itemprop="image"]'', ''.product-single__photo img'',
     ''div.product-img-box img'', ''#product-featured-image'']\<close>

text \<open>\<^verbatim>\<open>img.get('src') or img.get('data-src')\<close>\<close>

definition img_url_of :: "tag \<Rightarrow> string option" where
  "img_url_of img = or_str (attrs img ''src'') (attrs img ''data-src'')"

text \<open>The inner loop over the elements of the first matching selector: the list
  \<^verbatim>\<open>product['images']\<close> grows by the resolved address of every element that has one.\<close>

fun append_img_urls :: "env \<Rightarrow> scraper \<Rightarrow> tag list \<Rightarrow> string list \<Rightarrow> string list" where
  "append_img_urls E self [] imgs = imgs"
| "append_img_urls E self (img # rest) imgs =
     (case img_url_of img of
        Some img_url \<Rightarrow>
          if img_url \<noteq> [] then append_img_urls E self rest (imgs @ [urljoin E (base_url self) img_url])
          else append_img_urls E self rest imgs
      | None \<Rightarrow> append_img_urls E self rest imgs)"

fun images_loop :: "env \<Rightarrow> scraper \<Rightarrow> tag \<Rightarrow> string list \<Rightarrow> string list \<Rightarrow> string list" where
  "images_loop E self soup [] imgs = imgs"
| "images_loop E self soup (selector # rest) imgs =
     (let image_elems = select soup selector
      in if image_elems \<noteq> [] then append_img_urls E self image_elems imgs
         else images_loop E self soup rest imgs)"

text \<open>The generic search over every \<^verbatim>\<open>img\<close> of the page.\<close>

fun append_generic_img_urls :: "env \<Rightarrow> scraper \<Rightarrow> tag list \<Rightarrow> string list \<Rightarrow> string list" where
  "append_generic_img_urls E self [] imgs = imgs"
| "append_generic_img_urls E self (img # rest) imgs =
     (case img_url_of img of
        Some img_url \<Rightarrow>
          if img_url \<noteq> [] \<and> (contains ''product'' (lower img_url) \<or> contains ''item'' (lower img_url))
          then append_generic_img_urls E self rest (imgs @ [urljoin E (base_url self) img_url])
          else append_generic_img_urls E self rest imgs
      | None \<Rightarrow> append_generic_img_urls E self rest imgs)"

definition extract_images :: "env \<Rightarrow> scraper \<Rightarrow> tag \<Rightarrow> product \<Rightarrow> product" where
  "extract_images E self soup product =
     (let imgs = images_loop E self soup image_selectors []
      in if imgs = [] then
           product\<lparr>images := Some (append_generic_img_urls E self (find_all soup ''img'') imgs)\<rparr>
         else product\<lparr>images := Some imgs\<rparr>)"

subsection \<open>Specifications\<close>

definition spec_selectors :: "string list" where
  "spec_selectors = [''div.product-specification div.row'', ''.product-details table tr'',
     ''.product-specs table tr'', ''table.product-attributes tr'', ''.product-features li'']"

fun add_specs :: "tag list \<Rightarrow> (string \<times> string) list \<Rightarrow> (string \<times> string) list" where
  "add_specs [] specs = specs"
| "add_specs (spec # rest) specs =
     (let name_elem = or_elem (select_one spec ''div.col-sm-4'')
                        (or_elem (select_one spec ''th'')
                          (or_elem (select_one spec ''td:first-child'') (select_one spec ''strong'')));
          value_elem = or_elem (select_one spec ''div.col-sm-8'')
                         (or_elem (select_one spec ''td:last-child'') (select_one spec ''span''))
      in case (name_elem, value_elem) of
           (Some n, Some v) \<Rightarrow>
             add_specs rest (AList.update (strip (get_text n)) (strip (get_text v)) specs)
         | _ \<Rightarrow> add_specs rest specs)"

fun specs_loop :: "tag \<Rightarrow> string list \<Rightarrow> (string \<times> string) list \<Rightarrow> (string \<times> string) list" where
  "specs_loop soup [] specs = specs"
| "specs_loop soup (selector # rest) specs =
     (let spec_elems = select soup selector
      in if spec_elems \<noteq> [] then add_specs spec_elems specs
         else specs_loop soup rest specs)"

subsection \<open>The assembled record\<close>

text \<open>The body of \<^verbatim>\<open>parse_product_page\<close> behind the fetch: the dictionary built from the
  parsed page, one field after the other.\<close>

definition product_of_soup :: "env \<Rightarrow> scraper \<Rightarrow> tag \<Rightarrow> string \<Rightarrow> product" where
  "product_of_soup E self soup product_url =
     (let product = extract_title soup empty_product;
          product = extract_price soup product;
          product = extract_original_price soup product;
          product = extract_sku soup product;
          product = extract_description soup product;
          product = extract_images E self soup product;
          specs = specs_loop soup spec_selectors [];
          product = product\<lparr>specifications := Some specs\<rparr>
      in product\<lparr>url := Some product_url\<rparr>)"

definition parse_product_page ::
  "env \<Rightarrow> scraper \<Rightarrow> string list \<Rightarrow> string \<Rightarrow> product option \<times> string list" where
  "parse_product_page E self fetched product_url =
     (case get_page_html E fetched product_url of
        (html, fetched') \<Rightarrow>
          (case html of
             None \<Rightarrow> (None, fetched')
           | Some h \<Rightarrow>
               if h = [] then (None, fetched')
               else (Some (product_of_soup E self (BeautifulSoup E h) product_url), fetched')))"

section \<open>The listing page scanner\<close>

definition product_selectors :: "string list" where
  "product_selectors = [''div.product-layout div.product-thumb'', ''.product-grid .product-card'',
     ''.collection-grid .grid-product'', ''.products-grid .product-item'',
     ''.product-list .product'', ''ul.products li.product'', ''.grid-product__content'',
     ''article[data-product]'', ''.product-item'', ''.grid__item'', ''.product-card'']"

fun cards_loop :: "tag \<Rightarrow> string list \<Rightarrow> tag list \<Rightarrow> tag list" where
  "cards_loop soup [] product_cards = product_cards"
| "cards_loop soup (selector # rest) _ =
     (let product_cards = select soup selector
      in if product_cards \<noteq> [] then product_cards else cards_loop soup rest product_cards)"

definition find_product_cards :: "tag \<Rightarrow> tag list" where
  \<open>find_product_cards soup =
     (let product_cards = cards_loop soup product_selectors []
      in if product_cards = [] then
           (let by_product = select soup ''a[href*="product"]''
            in if by_product \<noteq> [] then by_product else select soup ''a[href*="/products/"]'')
         else product_cards)\<close>

definition link_selectors :: "string list" where
  \<open>link_selectors = [''div.caption h4 a'', ''a.product-title'', ''h2.product-title a'',
     ''a.grid-product__link'', ''.product-name a'', ''a.product-link'', ''h2 a'',
     ''a.product-item-link'', ''.product-card__title a'', ''a[href*="product"]'', ''a'']\<close>

text \<open>\<^verbatim>\<open>link_elem.get('href')\<close> when \<^verbatim>\<open>link_elem and link_elem.get('href')\<close> is true.\<close>

definition href_of :: "tag option \<Rightarrow> string option" where
  "href_of link_elem =
     (case link_elem of
        None \<Rightarrow> None
      | Some e \<Rightarrow> if truthy (attrs e ''href'') then attrs e ''href'' else None)"

fun link_loop :: "tag \<Rightarrow> string list \<Rightarrow> tag option \<Rightarrow> tag option" where
  "link_loop product_card [] link_elem = link_elem"
| "link_loop product_card (selector # rest) _ =
     (let link_elem = select_one product_card selector
      in if href_of link_elem \<noteq> None then link_elem
         else link_loop product_card rest link_elem)"

definition card_link :: "tag \<Rightarrow> tag option" where
  "card_link product_card =
     (if name product_card = ''a'' \<and> truthy (attrs product_card ''href'') then Some product_card
      else link_loop product_card link_selectors None)"

fun links_loop :: "env \<Rightarrow> scraper \<Rightarrow> tag list \<Rightarrow> string list \<Rightarrow> string list" where
  "links_loop E self [] product_links = product_links"
| "links_loop E self (product_card # rest) product_links =
     (case href_of (card_link product_card) of
        Some href \<Rightarrow>
          (let full_url = urljoin E (base_url self) href
           in if full_url \<notin> set product_links
              then links_loop E self rest (product_links @ [full_url])
              else links_loop E self rest product_links)
      | None \<Rightarrow> links_loop E self rest product_links)"

fun generic_links_loop :: "env \<Rightarrow> scraper \<Rightarrow> tag list \<Rightarrow> string list \<Rightarrow> string list" where
  "generic_links_loop E self [] product_links = product_links"
| "generic_links_loop E self (link # rest) product_links =
     (case attrs link ''href'' of
        Some href \<Rightarrow>
          if href \<noteq> [] \<and> (contains ''product'' href \<or> contains ''/p/'' href) then
            (let full_url = urljoin E (base_url self) href
             in if full_url \<notin> set product_links
                then generic_links_loop E self rest (product_links @ [full_url])
                else generic_links_loop E self rest product_links)
          else generic_links_loop E self rest product_links
      | None \<Rightarrow> generic_links_loop E self rest product_links)"

text \<open>The list \<^verbatim>\<open>product_links\<close> of \<^verbatim>\<open>scrape_category_page\<close>, as it stands when the
  product pages are about to be fetched.\<close>

definition find_product_links :: "env \<Rightarrow> scraper \<Rightarrow> tag \<Rightarrow> string list" where
  "find_product_links E self soup =
     (let product_links = links_loop E self (find_product_cards soup) []
      in if product_links = [] then generic_links_loop E self (find_all soup ''a'') product_links
         else product_links)"

text \<open>The loop over the links: a parsed record is kept when it is a non-empty dictionary.\<close>

fun products_loop ::
  "env \<Rightarrow> scraper \<Rightarrow> string list \<Rightarrow> product list \<Rightarrow> string list \<Rightarrow> product list \<times> string list" where
  "products_loop E self [] products fetched = (products, fetched)"
| "products_loop E self (link # rest) products fetched =
     (case parse_product_page E self fetched link of
        (Some p, fetched') \<Rightarrow>
          if p \<noteq> empty_product then products_loop E self rest (products @ [p]) fetched'
          else products_loop E self rest products fetched'
      | (None, fetched') \<Rightarrow> products_loop E self rest products fetched')"

definition scrape_category_page ::
  "env \<Rightarrow> scraper \<Rightarrow> string list \<Rightarrow> string \<Rightarrow> product list \<times> string list" where
  "scrape_category_page E self fetched u =
     (case get_page_html E fetched u of
        (html, fetched') \<Rightarrow>
          (case html of
             None \<Rightarrow> ([], fetched')
           | Some h \<Rightarrow>
               if h = [] then ([], fetched')
               else products_loop E self
                      (find_product_links E self (BeautifulSoup E h)) [] fetched'))"

section \<open>The pagination resolver\<close>

definition next_link_selectors :: "string list" where
  \<open>next_link_selectors = [''ul.pagination li.active + li a'', ''.pagination .next a'',
     ''a.pagination__next'', ''a[rel="next"]'', ''.next-page a'', ''.pagination-next a'',
     ''a.next'', ''a.next-page'', ''.pagination .next'', ''.pagination a:contains("Next")'',
     ''a:contains("Next")'']\<close>

fun next_text_loop :: "tag list \<Rightarrow> tag option" where
  "next_text_loop [] = None"
| "next_text_loop (el # rest) =
     (if lower (strip (get_text el)) = ''next'' then Some el else next_text_loop rest)"

definition next_link_of :: "tag \<Rightarrow> string \<Rightarrow> tag option" where
  \<open>next_link_of soup selector =
     (if endswith selector '':contains("Next")''
      then next_text_loop (select soup (split_colon_first selector))
      else select_one soup selector)\<close>

fun next_link_loop :: "env \<Rightarrow> scraper \<Rightarrow> tag \<Rightarrow> string list \<Rightarrow> string option" where
  "next_link_loop E self soup [] = None"
| "next_link_loop E self soup (selector # rest) =
     (case href_of (next_link_of soup selector) of
        Some href \<Rightarrow> Some (urljoin E (base_url self) href)
      | None \<Rightarrow> next_link_loop E self soup rest)"

definition get_next_page_url :: "env \<Rightarrow> scraper \<Rightarrow> string \<Rightarrow> string \<Rightarrow> string option" where
  "get_next_page_url E self u html =
     (let soup = BeautifulSoup E html
      in case next_link_loop E self soup next_link_selectors of
           Some next_url \<Rightarrow> Some next_url
         | None \<Rightarrow>
             (case re_search pagination_pattern u of
                Some digits \<Rightarrow>
                  (let current_page = int_of_digits digits;
                       next_page = current_page + 1
                   in Some (re_sub pagination_pattern (''page='' @ str_of_nat next_page) 0 u))
              | None \<Rightarrow> None))"

section \<open>The crawl orchestrator\<close>

text \<open>
  The \<^verbatim>\<open>while\<close> loop of \<^verbatim>\<open>scrape_multiple_pages\<close>. Its state is the object (the list
  \<^verbatim>\<open>self.all_products\<close> grows), the requests sent so far, \<^verbatim>\<open>current_url\<close> (a string or
  None) and \<^verbatim>\<open>page_count\<close>. The page is fetched once by the loop and once more by
  \<^verbatim>\<open>scrape_category_page\<close>; the next address is read from the first answer.
\<close>

function crawl_loop ::
  "env \<Rightarrow> int \<Rightarrow> scraper \<Rightarrow> string list \<Rightarrow> string option \<Rightarrow> int \<Rightarrow> scraper \<times> string list" where
  "crawl_loop E max_pages self fetched current_url page_count =
     (case current_url of
        None \<Rightarrow> (self, fetched)
      | Some cur \<Rightarrow>
          if cur = [] \<or> \<not> page_count < max_pages then (self, fetched)
          else
            (case get_page_html E fetched cur of
               (None, fetched1) \<Rightarrow> (self, fetched1)
             | (Some html, fetched1) \<Rightarrow>
                 if html = [] then (self, fetched1)
                 else
                   (case scrape_category_page E self fetched1 cur of
                      (products, fetched2) \<Rightarrow>
                        (let self2 = self\<lparr>all_products := all_products self @ products\<rparr>;
                             next_url = get_next_page_url E self2 cur html
                         in if next_url = Some cur then (self2, fetched2)
                            else crawl_loop E max_pages self2 fetched2 next_url (page_count + 1)))))"
  by pat_completeness auto
termination
  by (relation "measure (\<lambda>(E, max_pages, self, fetched, current_url, page_count).
        nat (max_pages - page_count))") auto

declare crawl_loop.simps [simp del]

text \<open>\<^verbatim>\<open>scrape_multiple_pages\<close>: the object and the requests afterwards; the value returned
  to the caller is \<^verbatim>\<open>self.all_products\<close> of that object.\<close>

definition scrape_multiple_pages ::
  "env \<Rightarrow> scraper \<Rightarrow> string list \<Rightarrow> string \<Rightarrow> int \<Rightarrow> scraper \<times> string list" where
  "scrape_multiple_pages E self fetched start_url max_pages =
     crawl_loop E max_pages self fetched (Some start_url) 0"

text \<open>
  The listing pages a crawl stands at, each with the state of the loop at the head of that
  iteration: the start page, and the page the pagination resolver names when it differs from
  the page just scanned.
\<close>

inductive page_reached ::
  "env \<Rightarrow> int \<Rightarrow> scraper \<Rightarrow> string list \<Rightarrow> string \<Rightarrow> scraper \<times> string list \<times> string \<times> int \<Rightarrow> bool"
  for E :: env and max_pages :: int and self0 :: scraper and fetched0 :: "string list"
    and start_url :: string where
  first_page: "page_reached E max_pages self0 fetched0 start_url (self0, fetched0, start_url, 0)"
| next_page:
    "page_reached E max_pages self0 fetched0 start_url (self, fetched, cur, page_count) \<Longrightarrow>
     cur \<noteq> [] \<Longrightarrow> page_count < max_pages \<Longrightarrow>
     http_get E fetched cur = Some html \<Longrightarrow> html \<noteq> [] \<Longrightarrow>
     scrape_category_page E self (fetched @ [cur]) cur = (products, fetched2) \<Longrightarrow>
     get_next_page_url E self cur html = Some next_url \<Longrightarrow> next_url \<noteq> cur \<Longrightarrow>
     page_reached E max_pages self0 fetched0 start_url
       (self\<lparr>all_products := all_products self @ products\<rparr>, fetched2, next_url, page_count + 1)"

text \<open>
  The records aggregated during one invocation, page by page: for every listing page the
  loop scans, in the order of the visits, the list of records \<^verbatim>\<open>scrape_category_page\<close>
  returns for it. The visits are those of the loop: they end at an empty address, at
  \<^verbatim>\<open>max_pages\<close>, at a failed fetch and behind a page whose next address is its own.
\<close>

function scanned_pages ::
  "env \<Rightarrow> int \<Rightarrow> scraper \<Rightarrow> string list \<Rightarrow> string option \<Rightarrow> int \<Rightarrow> product list list" where
  "scanned_pages E max_pages self fetched current_url page_count =
     (case current_url of
        None \<Rightarrow> []
      | Some cur \<Rightarrow>
          if cur = [] \<or> \<not> page_count < max_pages then []
          else
            (case http_get E fetched cur of
               None \<Rightarrow> []
             | Some html \<Rightarrow>
                 if html = [] then []
                 else
                   (case scrape_category_page E self (fetched @ [cur]) cur of
                      (products, fetched2) \<Rightarrow>
                        if get_next_page_url E self cur html = Some cur then [products]
                        else products #
                          scanned_pages E max_pages self fetched2
                            (get_next_page_url E self cur html) (page_count + 1))))"
  by pat_completeness auto
termination
  by (relation "measure (\<lambda>(E, max_pages, self, fetched, current_url, page_count).
        nat (max_pages - page_count))") auto

declare scanned_pages.simps [simp del]

section \<open>The exporters\<close>

text \<open>
  What the exporters leave outside the program: files and console lines. A file written
  through \<^verbatim>\<open>json.dump\<close> holds the array of records handed over; a file written through
  \<^verbatim>\<open>csv.DictWriter\<close> holds the header and the rows of cells handed over. The console lines
  of the crawl (\<^verbatim>\<open>print\<close>, \<^verbatim>\<open>debug_print\<close>) are not modelled.
\<close>

datatype file_content =
  JsonArray "product list"
| CsvTable "string list" "string list list"

record outside =
  files :: "string \<rightharpoonup> file_content"
  console :: "string list"

definition save_to_json :: "scraper \<Rightarrow> string \<Rightarrow> outside \<Rightarrow> outside" where
  "save_to_json self filename w =
     w\<lparr>files := (files w)(filename \<mapsto> JsonArray (all_products self)),
       console := console w @
         [''Saved '' @ str_of_nat (length (all_products self)) @ '' products to '' @ filename]\<rparr>"

text \<open>\<^verbatim>\<open>product.get('specifications', {})\<close>, \<^verbatim>\<open>product.get('images', [])\<close> and
  \<^verbatim>\<open>product.get(key, '')\<close>\<close>

definition get_specifications :: "product \<Rightarrow> (string \<times> string) list" where
  "get_specifications p = (case specifications p of Some d \<Rightarrow> d | None \<Rightarrow> [])"

definition get_images :: "product \<Rightarrow> string list" where
  "get_images p = (case images p of Some xs \<Rightarrow> xs | None \<Rightarrow> [])"

definition get_or_empty :: "string option \<Rightarrow> string" where
  "get_or_empty v = (case v of Some s \<Rightarrow> s | None \<Rightarrow> [])"

definition spec_fields :: "product list \<Rightarrow> string list" where
  "spec_fields ps =
     sort (remdups (concat (map (\<lambda>p. map (\<lambda>spec. ''spec_'' @ fst spec) (get_specifications p)) ps)))"

definition csv_fieldnames :: "product list \<Rightarrow> string list" where
  "csv_fieldnames ps =
     [''title'', ''price'', ''original_price'', ''sku'', ''description'', ''url'']
       @ spec_fields ps @ [''images'']"

fun add_spec_cells :: "(string \<times> string) list \<Rightarrow> (string \<times> string) list \<Rightarrow> (string \<times> string) list" where
  "add_spec_cells [] row = row"
| "add_spec_cells ((spec_name, spec_value) # rest) row =
     add_spec_cells rest (AList.update (''spec_'' @ spec_name) spec_value row)"

definition csv_row :: "product \<Rightarrow> (string \<times> string) list" where
  "csv_row p =
     add_spec_cells (get_specifications p)
       [(''title'', get_or_empty (title p)),
        (''price'', get_or_empty (price p)),
        (''original_price'', get_or_empty (original_price p)),
        (''sku'', get_or_empty (sku p)),
        (''description'', get_or_empty (description p)),
        (''url'', get_or_empty (url p)),
        (''images'', join ''; '' (get_images p))]"

text \<open>\<^verbatim>\<open>writer.writerow(row)\<close>: one cell per column, empty where the row has no such key.\<close>

definition writerow :: "string list \<Rightarrow> (string \<times> string) list \<Rightarrow> string list" where
  "writerow fieldnames row = map (\<lambda>f. get_or_empty (map_of row f)) fieldnames"

definition save_to_csv :: "scraper \<Rightarrow> string \<Rightarrow> outside \<Rightarrow> outside" where
  "save_to_csv self filename w =
     (if all_products self = [] then w\<lparr>console := console w @ [''No products to save'']\<rparr>
      else
        (let fieldnames = csv_fieldnames (all_products self)
         in w\<lparr>files := (files w)(filename \<mapsto>
                 CsvTable fieldnames (map (\<lambda>p. writerow fieldnames (csv_row p)) (all_products self))),
               console := console w @
                 [''Saved '' @ str_of_nat (length (all_products self)) @ '' products to '' @ filename]\<rparr>))"

section \<open>Closed forms used in the proofs\<close>

text \<open>The element at which a loop over selectors with \<^verbatim>\<open>select_one\<close> breaks.\<close>

fun first_match :: "tag \<Rightarrow> string list \<Rightarrow> tag option" where
  "first_match soup [] = None"
| "first_match soup (selector # rest) =
     (case select_one soup selector of Some e \<Rightarrow> Some e | None \<Rightarrow> first_match soup rest)"

text \<open>The value each section of the parser binds to its key.\<close>

definition title_value :: "tag \<Rightarrow> string" where
  "title_value soup =
     (case first_match soup title_selectors of
        Some e \<Rightarrow> strip (get_text e)
      | None \<Rightarrow> (case find_all soup ''h1'' of h1 # _ \<Rightarrow> strip (get_text h1) | [] \<Rightarrow> ''N/A''))"

definition price_value :: "tag \<Rightarrow> string" where
  "price_value soup =
     (case first_match soup price_selectors of
        Some e \<Rightarrow> clean_price (strip (get_text e))
      | None \<Rightarrow> (case findall price_pattern 0 (markup soup) of m # _ \<Rightarrow> m | [] \<Rightarrow> ''N/A''))"

definition original_price_value :: "tag \<Rightarrow> string" where
  "original_price_value soup =
     (case first_match soup original_price_selectors of
        Some e \<Rightarrow> clean_price (strip (get_text e))
      | None \<Rightarrow> price_value soup)"

definition sku_value :: "tag \<Rightarrow> string" where
  "sku_value soup =
     (case first_match soup sku_selectors of
        Some e \<Rightarrow> clean_sku (strip (get_text e))
      | None \<Rightarrow> (case findall sku_pattern 0 (markup soup) of m # _ \<Rightarrow> m | [] \<Rightarrow> ''N/A''))"

definition description_value :: "tag \<Rightarrow> string" where
  "description_value soup =
     (case first_match soup description_selectors of
        Some e \<Rightarrow> strip (get_text e)
      | None \<Rightarrow>
          (case find_meta_description soup of
             Some meta_desc \<Rightarrow>
               (case attrs meta_desc ''content'' of
                  Some c \<Rightarrow> if c \<noteq> [] then c else ''N/A''
                | None \<Rightarrow> ''N/A'')
           | None \<Rightarrow> ''N/A''))"

definition images_value :: "env \<Rightarrow> scraper \<Rightarrow> tag \<Rightarrow> string list" where
  "images_value E self soup =
     (let imgs = images_loop E self soup image_selectors []
      in if imgs = [] then append_generic_img_urls E self (find_all soup ''img'') [] else imgs)"

text \<open>The addresses the link loops come across, before any of them is dropped as a
  duplicate.\<close>

definition card_urls :: "env \<Rightarrow> scraper \<Rightarrow> tag list \<Rightarrow> string list" where
  "card_urls E self cards =
     concat (map (\<lambda>c. case href_of (card_link c) of
                        Some href \<Rightarrow> [urljoin E (base_url self) href]
                      | None \<Rightarrow> []) cards)"

definition generic_urls :: "env \<Rightarrow> scraper \<Rightarrow> tag list \<Rightarrow> string list" where
  "generic_urls E self links =
     concat (map (\<lambda>link. case attrs link ''href'' of
                           Some href \<Rightarrow>
                             if href \<noteq> [] \<and> (contains ''product'' href \<or> contains ''/p/'' href)
                             then [urljoin E (base_url self) href] else []
                         | None \<Rightarrow> []) links)"

text \<open>A list without its repetitions, each element at its first occurrence.\<close>

definition first_occurrences :: "'a list \<Rightarrow> 'a list" where
  "first_occurrences xs = rev (remdups (rev xs))"

section \<open>Example pages\<close>

text \<open>
  Concrete documents for the instances below. Each is given by the answers a parse of the
  quoted HTML gives to the queries of the scraper; every query not listed finds nothing.
  The serialisation of an inner element is never read by the scraper and is left empty.
  Addresses are joined as \<^verbatim>\<open>urljoin\<close> joins a base that ends in a slash and a relative
  path without a leading slash.
\<close>

definition answers :: "(string \<times> tag list) list \<Rightarrow> string \<Rightarrow> tag list" where
  "answers tbl q = (case map_of tbl q of Some es \<Rightarrow> es | None \<Rightarrow> [])"

definition element ::
  "string \<Rightarrow> string \<Rightarrow> (string \<times> string) list \<Rightarrow> (string \<times> tag list) list \<Rightarrow> tag" where
  "element nm txt as sel = Tag nm txt (map_of as) (answers sel) (\<lambda>_. []) []"

definition page :: "(string \<times> tag list) list \<Rightarrow> (string \<times> tag list) list \<Rightarrow> string \<Rightarrow> tag" where
  "page sel by_name html = Tag ''[document]'' [] Map.empty (answers sel) (answers by_name) html"

definition blank_page :: tag where
  "blank_page = page [] [] []"

text \<open>A product on sale, in the first template of every field and in later ones as well.\<close>

definition sale_html :: string where
  \<open>sale_html = ''<h1 class="product-title"> Oak Table </h1><h1 class="title">Tables</h1>'' @
     ''<span class="price-new">$1,299.00</span><span class="price">from $99</span>'' @
     ''<span class="price-old">$1,499.00</span><div class="sku">SKU: OT-100</div>'' @
     ''<div class="product-description">Solid oak.</div>'' @
     ''<div class="product-image-main"><img src="img/oak.jpg"/><img data-src="img/oak-2.jpg"/></div>'' @
     ''<div class="product-specification"><div class="row"><div class="col-sm-4">Material</div>'' @
     ''<div class="col-sm-8">Oak</div></div></div>''\<close>

definition sale_page :: tag where
  "sale_page =
     (let h1a = element ''h1'' '' Oak Table '' [(''class'', ''product-title'')] [];
          h1b = element ''h1'' ''Tables'' [(''class'', ''title'')] [];
          img1 = element ''img'' [] [(''src'', ''img/oak.jpg'')] [];
          img2 = element ''img'' [] [(''data-src'', ''img/oak-2.jpg'')] [];
          row = element ''div'' ''MaterialOak'' [(''class'', ''row'')]
                  [(''div.col-sm-4'', [element ''div'' ''Material'' [(''class'', ''col-sm-4'')] []]),
                   (''div.col-sm-8'', [element ''div'' ''Oak'' [(''class'', ''col-sm-8'')] []])]
      in page
           [(''h1.product-title'', [h1a]),
            (''h1.title'', [h1b]),
            (''span.price-new'', [element ''span'' ''$1,299.00'' [(''class'', ''price-new'')] []]),
            (''.price'', [element ''span'' ''from $99'' [(''class'', ''price'')] []]),
            (''span.price-old'', [element ''span'' ''$1,499.00'' [(''class'', ''price-old'')] []]),
            (''div.sku'', [element ''div'' ''SKU: OT-100'' [(''class'', ''sku'')] []]),
            (''div.product-description'',
               [element ''div'' ''Solid oak.'' [(''class'', ''product-description'')] []]),
            (''div.product-image-main img'', [img1, img2]),
            (''div.product-specification div.row'', [row])]
           [(''h1'', [h1a, h1b]), (''img'', [img1, img2])]
           sale_html)"

text \<open>Two products at full price, in the first template for title and price.\<close>

definition sofa_a_html :: string where
  \<open>sofa_a_html = ''<h1 class="product-title">Sofa A</h1><span class="price-new">$100.00</span>''\<close>

definition sofa_a_page :: tag where
  "sofa_a_page =
     (let h1 = element ''h1'' ''Sofa A'' [(''class'', ''product-title'')] []
      in page
           [(''h1.product-title'', [h1]),
            (''span.price-new'', [element ''span'' ''$100.00'' [(''class'', ''price-new'')] []])]
           [(''h1'', [h1])]
           sofa_a_html)"

definition sofa_b_html :: string where
  \<open>sofa_b_html = ''<h1 class="product-title">Sofa B</h1><span class="price-new">$250.00</span>''\<close>

definition sofa_b_page :: tag where
  "sofa_b_page =
     (let h1 = element ''h1'' ''Sofa B'' [(''class'', ''product-title'')] []
      in page
           [(''h1.product-title'', [h1]),
            (''span.price-new'', [element ''span'' ''$250.00'' [(''class'', ''price-new'')] []])]
           [(''h1'', [h1])]
           sofa_b_html)"

text \<open>A page in no known template whose text names a price.\<close>

definition offer_page :: tag where
  "offer_page = page [] [] ''<p>Now only $45.50!</p>''"

text \<open>A page in no known template, without heading, price, label, metadata or image.\<close>

definition bare_page :: tag where
  "bare_page = page [] [] ''<p>Coming soon</p>''"

text \<open>A page whose only heading carries no class.\<close>

definition heading_page :: tag where
  "heading_page = page [] [(''h1'', [element ''h1'' ''Sofa'' [] []])] ''<h1>Sofa</h1>''"

text \<open>A page whose main image is loaded lazily (its address is in neither \<^verbatim>\<open>src\<close> nor
  \<^verbatim>\<open>data-src\<close>), followed by a banner.\<close>

definition lazy_html :: string where
  \<open>lazy_html = ''<div class="product-image-main"><img data-lazy="img/oak.jpg"/></div>'' @
     ''<img src="img/product-banner.jpg"/>''\<close>

definition lazy_page :: tag where
  "lazy_page =
     (let main = element ''img'' [] [(''data-lazy'', ''img/oak.jpg'')] [];
          banner = element ''img'' [] [(''src'', ''img/product-banner.jpg'')] []
      in page [(''div.product-image-main img'', [main])] [(''img'', [main, banner])] lazy_html)"

text \<open>A listing with two cards and no link to a next page, a listing whose link to the
  next page leads to the last listing, and the last listing, whose link to the next page
  leads to itself.\<close>

definition listing_html :: string where
  \<open>listing_html = ''<div class="product-card"><a href="p/1">Sofa A</a></div>'' @
     ''<div class="product-card"><a href="p/2">Sofa B</a></div>''\<close>

definition listing_page :: tag where
  "listing_page =
     (let a1 = element ''a'' ''Sofa A'' [(''href'', ''p/1'')] [];
          a2 = element ''a'' ''Sofa B'' [(''href'', ''p/2'')] []
      in page
           [(''.product-card'',
               [element ''div'' ''Sofa A'' [(''class'', ''product-card'')] [(''a'', [a1])],
                element ''div'' ''Sofa B'' [(''class'', ''product-card'')] [(''a'', [a2])]]),
            (''a'', [a1, a2])]
           [(''a'', [a1, a2])]
           listing_html)"

definition new_html :: string where
  \<open>new_html = ''<div class="product-card"><a href="p/1">Sofa A</a></div>'' @
     ''<a class="next" href="chairs">Next</a>''\<close>

definition new_page :: tag where
  "new_page =
     (let a1 = element ''a'' ''Sofa A'' [(''href'', ''p/1'')] [];
          nx = element ''a'' ''Next'' [(''class'', ''next''), (''href'', ''chairs'')] []
      in page
           [(''.product-card'',
               [element ''div'' ''Sofa A'' [(''class'', ''product-card'')] [(''a'', [a1])]]),
            (''a.next'', [nx]),
            (''a'', [a1, nx])]
           [(''a'', [a1, nx])]
           new_html)"

definition last_html :: string where
  \<open>last_html = ''<div class="product-card"><a href="p/2">Sofa B</a></div>'' @
     ''<a class="next" href="chairs">Next</a>''\<close>

definition last_page :: tag where
  "last_page =
     (let a2 = element ''a'' ''Sofa B'' [(''href'', ''p/2'')] [];
          nx = element ''a'' ''Next'' [(''class'', ''next''), (''href'', ''chairs'')] []
      in page
           [(''.product-card'',
               [element ''div'' ''Sofa B'' [(''class'', ''product-card'')] [(''a'', [a2])]]),
            (''a.next'', [nx]),
            (''a'', [a2, nx])]
           [(''a'', [a2, nx])]
           last_html)"

text \<open>A site of five pages that answers every request the same way each time.\<close>

definition ex_site :: "(string \<times> string) list" where
  "ex_site =
     [(''https://shop.example/sofas'', listing_html),
      (''https://shop.example/new'', new_html),
      (''https://shop.example/chairs'', last_html),
      (''https://shop.example/p/1'', sofa_a_html),
      (''https://shop.example/p/2'', sofa_b_html)]"

definition ex_env :: env where
  "ex_env =
     \<lparr>http_get = (\<lambda>fetched u. map_of ex_site u),
      BeautifulSoup = (\<lambda>html.
        case map_of [(listing_html, listing_page), (new_html, new_page), (last_html, last_page),
                     (sofa_a_html, sofa_a_page), (sofa_b_html, sofa_b_page)] html of
          Some t \<Rightarrow> t
        | None \<Rightarrow> blank_page),
      urljoin = (\<lambda>base rel. base @ rel)\<rparr>"

definition ex_self :: scraper where
  "ex_self = init ''https://shop.example/''"

text \<open>A listing in which the first and the third card lead to the same product.\<close>

definition repeat_html :: string where
  \<open>repeat_html = ''<div class="product-card"><a href="p/1">Sofa A</a></div>'' @
     ''<div class="product-card"><a href="p/2">Sofa B</a></div>'' @
     ''<div class="product-card"><a href="p/1">Sofa A, again</a></div>''\<close>

definition repeat_page :: tag where
  "repeat_page =
     (let a1 = element ''a'' ''Sofa A'' [(''href'', ''p/1'')] [];
          a2 = element ''a'' ''Sofa B'' [(''href'', ''p/2'')] [];
          a3 = element ''a'' ''Sofa A, again'' [(''href'', ''p/1'')] []
      in page
           [(''.product-card'',
               [element ''div'' ''Sofa A'' [(''class'', ''product-card'')] [(''a'', [a1])],
                element ''div'' ''Sofa B'' [(''class'', ''product-card'')] [(''a'', [a2])],
                element ''div'' ''Sofa A, again'' [(''class'', ''product-card'')] [(''a'', [a3])]]),
            (''a'', [a1, a2, a3])]
           [(''a'', [a1, a2, a3])]
           repeat_html)"

text \<open>Nothing written yet, and a record to export.\<close>

definition no_output :: outside where
  "no_output = \<lparr>files = Map.empty, console = []\<rparr>"

definition oak_table :: product where
  "oak_table = product_of_soup ex_env ex_self sale_page ''https://shop.example/p/9''"

section \<open>Properties of the field loops\<close>

lemma first_match_none:
  "\<forall>s \<in> set sels. select soup s = [] \<Longrightarrow> first_match soup sels = None"
  by (induction sels) (simp_all add: select_one_def)

lemma first_match_hd:
  "select_one soup s = Some e \<Longrightarrow> first_match soup (s # rest) = Some e"
  by simp

lemma title_loop_eq:
  "title_loop soup sels p =
     (case first_match soup sels of
        Some e \<Rightarrow> p\<lparr>title := Some (strip (get_text e))\<rparr> | None \<Rightarrow> p)"
  by (induction sels) (simp_all split: option.splits)

lemma price_loop_eq:
  "price_loop soup sels p =
     (case first_match soup sels of
        Some e \<Rightarrow> p\<lparr>price := Some (clean_price (strip (get_text e)))\<rparr> | None \<Rightarrow> p)"
  by (induction sels) (simp_all split: option.splits)

lemma original_price_loop_eq:
  "original_price_loop soup sels p =
     (case first_match soup sels of
        Some e \<Rightarrow> p\<lparr>original_price := Some (clean_price (strip (get_text e)))\<rparr> | None \<Rightarrow> p)"
  by (induction sels) (simp_all split: option.splits)

lemma sku_loop_eq:
  "sku_loop soup sels p =
     (case first_match soup sels of
        Some e \<Rightarrow> p\<lparr>sku := Some (clean_sku (strip (get_text e)))\<rparr> | None \<Rightarrow> p)"
  by (induction sels) (simp_all split: option.splits)

lemma description_loop_eq:
  "description_loop soup sels p =
     (case first_match soup sels of
        Some e \<Rightarrow> p\<lparr>description := Some (strip (get_text e))\<rparr> | None \<Rightarrow> p)"
  by (induction sels) (simp_all split: option.splits)

lemma extract_title_eq:
  "title p = None \<Longrightarrow> extract_title soup p = p\<lparr>title := Some (title_value soup)\<rparr>"
  by (simp add: extract_title_def title_loop_eq title_value_def Let_def
      split: option.splits list.splits)

lemma extract_price_eq:
  "price p = None \<Longrightarrow> extract_price soup p = p\<lparr>price := Some (price_value soup)\<rparr>"
  by (simp add: extract_price_def price_loop_eq price_value_def Let_def
      split: option.splits list.splits)

lemma extract_original_price_eq:
  "original_price p = None \<Longrightarrow> price p = Some (price_value soup) \<Longrightarrow>
   extract_original_price soup p = p\<lparr>original_price := Some (original_price_value soup)\<rparr>"
  by (simp add: extract_original_price_def original_price_loop_eq original_price_value_def Let_def
      split: option.splits list.splits)

lemma extract_sku_eq:
  "sku p = None \<Longrightarrow> extract_sku soup p = p\<lparr>sku := Some (sku_value soup)\<rparr>"
  by (simp add: extract_sku_def sku_loop_eq sku_value_def Let_def
      split: option.splits list.splits)

lemma extract_description_eq:
  "description p = None \<Longrightarrow>
   extract_description soup p = p\<lparr>description := Some (description_value soup)\<rparr>"
  by (auto simp add: extract_description_def description_loop_eq description_value_def Let_def
      truthy_def split: option.splits list.splits)

lemma extract_images_eq:
  "extract_images E self soup p = p\<lparr>images := Some (images_value E self soup)\<rparr>"
  by (simp add: extract_images_def images_value_def Let_def)

lemma product_of_soup_eq:
  "product_of_soup E self soup u =
     \<lparr>title = Some (title_value soup), price = Some (price_value soup),
      original_price = Some (original_price_value soup), sku = Some (sku_value soup),
      description = Some (description_value soup), images = Some (images_value E self soup),
      specifications = Some (specs_loop soup spec_selectors []), url = Some u\<rparr>"
  by (simp add: product_of_soup_def Let_def empty_product_def extract_title_eq extract_price_eq
      extract_original_price_eq extract_sku_eq extract_description_eq extract_images_eq)

lemma first_match_some:
  "\<exists>s \<in> set sels. select soup s \<noteq> [] \<Longrightarrow> \<exists>e. first_match soup sels = Some e"
  by (induction sels) (auto simp: select_one_def split: list.splits option.splits)

lemma images_loop_hd:
  "select soup s \<noteq> [] \<Longrightarrow>
   images_loop E self soup (s # rest) imgs = append_img_urls E self (select soup s) imgs"
  by (simp add: Let_def)

lemma images_loop_none:
  "\<forall>s \<in> set sels. select soup s = [] \<Longrightarrow> images_loop E self soup sels imgs = imgs"
  by (induction sels) (simp_all add: Let_def)

lemma specs_loop_hd:
  "select soup s \<noteq> [] \<Longrightarrow> specs_loop soup (s # rest) specs = add_specs (select soup s) specs"
  by (simp add: Let_def)

lemma specs_loop_none:
  "\<forall>s \<in> set sels. select soup s = [] \<Longrightarrow> specs_loop soup sels specs = specs"
  by (induction sels) (simp_all add: Let_def)

lemma hd_selectors:
  "title_selectors = hd title_selectors # tl title_selectors"
  "price_selectors = hd price_selectors # tl price_selectors"
  "original_price_selectors = hd original_price_selectors # tl original_price_selectors"
  "sku_selectors = hd sku_selectors # tl sku_selectors"
  "description_selectors = hd description_selectors # tl description_selectors"
  "image_selectors = hd image_selectors # tl image_selectors"
  "spec_selectors = hd spec_selectors # tl spec_selectors"
  by (simp_all add: title_selectors_def price_selectors_def original_price_selectors_def
      sku_selectors_def description_selectors_def image_selectors_def spec_selectors_def)

lemma first_match_first:
  "sels = s # rest \<Longrightarrow> select_one soup s = Some e \<Longrightarrow> first_match soup sels = Some e"
  by simp

lemma generic_none:
  "\<forall>img \<in> set imgs. \<forall>a. img_url_of img = Some a \<longrightarrow>
       \<not> contains ''product'' (lower a) \<and> \<not> contains ''item'' (lower a) \<Longrightarrow>
   append_generic_img_urls E self imgs acc = acc"
  by (induction imgs arbitrary: acc) (auto split: option.splits)

lemma price_pattern_dollar:
  "price_pattern s = Some (n, v) \<Longrightarrow> \<exists>r. v = CHR ''$'' # r"
  by (auto simp: price_pattern_def Let_def split: list.splits if_splits)

lemma findall_price_dollar:
  "\<forall>m \<in> set (findall price_pattern k s). \<exists>r. m = CHR ''$'' # r"
  by (induction price_pattern k s rule: findall.induct)
    (auto split: option.splits dest: price_pattern_dollar)

text \<open>Unfolding of the example pages.\<close>

lemmas page_simps = page_def answers_def element_def select_one_def Let_def

section \<open>First match wins\<close>

text \<open>
  Claim C1, as amended. On every product page and for each field with a list of selectors:
  when the first selector of the list matches, the field is read from that match alone,
  whatever the later selectors of the list would match. Title and description are the
  stripped text of the first matching element, price and original price that text with
  every character other than digits, commas and periods removed, the SKU that text without
  its leading label, the specifications the mapping built from the matched rows. The images
  are the addresses collected from the matched elements when there is at least one; when
  the matched elements carry no address at all, the images are those of the generic search
  over every image of the page.
\<close>

theorem first_locator_wins:
  "(select_one soup (hd title_selectors) = Some t \<longrightarrow>
      title (product_of_soup E self soup u) = Some (strip (get_text t)))
   \<and> (select_one soup (hd price_selectors) = Some p \<longrightarrow>
      price (product_of_soup E self soup u) = Some (clean_price (strip (get_text p))))
   \<and> (select_one soup (hd original_price_selectors) = Some q \<longrightarrow>
      original_price (product_of_soup E self soup u) = Some (clean_price (strip (get_text q))))
   \<and> (select_one soup (hd sku_selectors) = Some k \<longrightarrow>
      sku (product_of_soup E self soup u) = Some (clean_sku (strip (get_text k))))
   \<and> (select_one soup (hd description_selectors) = Some d \<longrightarrow>
      description (product_of_soup E self soup u) = Some (strip (get_text d)))
   \<and> (select soup (hd spec_selectors) \<noteq> [] \<longrightarrow>
      specifications (product_of_soup E self soup u)
        = Some (add_specs (select soup (hd spec_selectors)) []))
   \<and> (select soup (hd image_selectors) \<noteq> [] \<longrightarrow>
      images (product_of_soup E self soup u)
        = Some (if append_img_urls E self (select soup (hd image_selectors)) [] \<noteq> []
                then append_img_urls E self (select soup (hd image_selectors)) []
                else append_generic_img_urls E self (find_all soup ''img'') []))"
proof (intro conjI impI)
  assume "select_one soup (hd title_selectors) = Some t"
  then show "title (product_of_soup E self soup u) = Some (strip (get_text t))"
    using first_match_first [OF hd_selectors(1)] by (simp add: product_of_soup_eq title_value_def)
next
  assume "select_one soup (hd price_selectors) = Some p"
  then show "price (product_of_soup E self soup u) = Some (clean_price (strip (get_text p)))"
    using first_match_first [OF hd_selectors(2)] by (simp add: product_of_soup_eq price_value_def)
next
  assume "select_one soup (hd original_price_selectors) = Some q"
  then show "original_price (product_of_soup E self soup u) = Some (clean_price (strip (get_text q)))"
    using first_match_first [OF hd_selectors(3)]
    by (simp add: product_of_soup_eq original_price_value_def)
next
  assume "select_one soup (hd sku_selectors) = Some k"
  then show "sku (product_of_soup E self soup u) = Some (clean_sku (strip (get_text k)))"
    using first_match_first [OF hd_selectors(4)] by (simp add: product_of_soup_eq sku_value_def)
next
  assume "select_one soup (hd description_selectors) = Some d"
  then show "description (product_of_soup E self soup u) = Some (strip (get_text d))"
    using first_match_first [OF hd_selectors(5)]
    by (simp add: product_of_soup_eq description_value_def)
next
  assume "select soup (hd spec_selectors) \<noteq> []"
  then have "specs_loop soup (hd spec_selectors # tl spec_selectors) []
      = add_specs (select soup (hd spec_selectors)) []"
    by (rule specs_loop_hd)
  then show "specifications (product_of_soup E self soup u)
      = Some (add_specs (select soup (hd spec_selectors)) [])"
    using hd_selectors(7) by (simp add: product_of_soup_eq)
next
  assume "select soup (hd image_selectors) \<noteq> []"
  then have "images_loop E self soup (hd image_selectors # tl image_selectors) []
      = append_img_urls E self (select soup (hd image_selectors)) []"
    by (rule images_loop_hd)
  then have "images_loop E self soup image_selectors []
      = append_img_urls E self (select soup (hd image_selectors)) []"
    using hd_selectors(6) by simp
  then show "images (product_of_soup E self soup u)
        = Some (if append_img_urls E self (select soup (hd image_selectors)) [] \<noteq> []
                then append_img_urls E self (select soup (hd image_selectors)) []
                else append_generic_img_urls E self (find_all soup ''img'') [])"
    by (simp add: product_of_soup_eq images_value_def Let_def)
qed

text \<open>An instance: a page in which the first selector of every list matches, and so does the
  second selector for titles.\<close>

theorem first_locator_wins_witness:
  "map get_text (select sale_page (hd title_selectors)) = ['' Oak Table '']
   \<and> map get_text (select sale_page (hd (tl title_selectors))) = [''Tables'']
   \<and> title (product_of_soup ex_env ex_self sale_page ''https://shop.example/p/9'') = Some ''Oak Table''
   \<and> price (product_of_soup ex_env ex_self sale_page ''https://shop.example/p/9'') = Some ''1,299.00''
   \<and> original_price (product_of_soup ex_env ex_self sale_page ''https://shop.example/p/9'')
       = Some ''1,499.00''
   \<and> sku (product_of_soup ex_env ex_self sale_page ''https://shop.example/p/9'') = Some ''OT-100''
   \<and> description (product_of_soup ex_env ex_self sale_page ''https://shop.example/p/9'')
       = Some ''Solid oak.''
   \<and> specifications (product_of_soup ex_env ex_self sale_page ''https://shop.example/p/9'')
       = Some [(''Material'', ''Oak'')]
   \<and> images (product_of_soup ex_env ex_self sale_page ''https://shop.example/p/9'')
       = Some [''https://shop.example/img/oak.jpg'', ''https://shop.example/img/oak-2.jpg'']"
proof -
  obtain t where t: "select_one sale_page (hd title_selectors) = Some t"
      "get_text t = '' Oak Table ''"
    by (simp add: sale_page_def title_selectors_def page_simps)
  obtain p where p: "select_one sale_page (hd price_selectors) = Some p"
      "get_text p = ''$1,299.00''"
    by (simp add: sale_page_def price_selectors_def page_simps)
  obtain q where q: "select_one sale_page (hd original_price_selectors) = Some q"
      "get_text q = ''$1,499.00''"
    by (simp add: sale_page_def original_price_selectors_def page_simps)
  obtain k where k: "select_one sale_page (hd sku_selectors) = Some k"
      "get_text k = ''SKU: OT-100''"
    by (simp add: sale_page_def sku_selectors_def page_simps)
  obtain d where d: "select_one sale_page (hd description_selectors) = Some d"
      "get_text d = ''Solid oak.''"
    by (simp add: sale_page_def description_selectors_def page_simps)
  have sp: "select sale_page (hd spec_selectors) \<noteq> []"
    by (simp add: sale_page_def spec_selectors_def page_simps)
  have im: "select sale_page (hd image_selectors) \<noteq> []"
    by (simp add: sale_page_def image_selectors_def page_simps)
  have ev: "strip '' Oak Table '' = ''Oak Table''"
      "clean_price (strip ''$1,299.00'') = ''1,299.00''"
      "clean_price (strip ''$1,499.00'') = ''1,499.00''"
      "clean_sku (strip ''SKU: OT-100'') = ''OT-100''"
      "strip ''Solid oak.'' = ''Solid oak.''"
      "add_specs (select sale_page (hd spec_selectors)) [] = [(''Material'', ''Oak'')]"
      "append_img_urls ex_env ex_self (select sale_page (hd image_selectors)) []
         = [''https://shop.example/img/oak.jpg'', ''https://shop.example/img/oak-2.jpg'']"
      "map get_text (select sale_page (hd title_selectors)) = ['' Oak Table '']"
      "map get_text (select sale_page (hd (tl title_selectors))) = [''Tables'']"
    by (code_simp)+
  show ?thesis
    using first_locator_wins [of sale_page t ex_env ex_self "''https://shop.example/p/9''" p q k d]
      t p q k d sp im
    by (simp add: ev)
qed

text \<open>
  The claim as stated fails for images: on the page with the lazily loaded main image the
  first image selector matches, its match yields no address, and the field holds the banner
  found by the generic search instead of the empty list.
\<close>

theorem first_locator_wins_counterexample:
  "map (\<lambda>img. img_url_of img) (select lazy_page (hd image_selectors)) = [None]
   \<and> append_img_urls ex_env ex_self (select lazy_page (hd image_selectors)) [] = []
   \<and> images (product_of_soup ex_env ex_self lazy_page ''https://shop.example/p/3'')
       = Some [''https://shop.example/img/product-banner.jpg'']"
  by code_simp

section \<open>Defaults of unmatched fields\<close>

text \<open>
  Claim C2, as amended. The assembled record binds every key, whatever the page. When none
  of a field's selectors matches: price and SKU are the sentinel \<^verbatim>\<open>N/A\<close> if their pattern
  finds nothing in the page's text; the title is the sentinel if the page has no
  \<^verbatim>\<open>h1\<close> element either; the description is the sentinel if the page's description
  metadata is absent or has no content; the original price is whatever the price is; the images
  are the empty list if no image of the page has an address containing \<^verbatim>\<open>product\<close> or
  \<^verbatim>\<open>item\<close>; the specifications are the empty mapping.
\<close>

theorem unmatched_fields_resolve_to_defaults:
  "title (product_of_soup E self soup u) \<noteq> None
   \<and> price (product_of_soup E self soup u) \<noteq> None
   \<and> original_price (product_of_soup E self soup u) \<noteq> None
   \<and> sku (product_of_soup E self soup u) \<noteq> None
   \<and> description (product_of_soup E self soup u) \<noteq> None
   \<and> images (product_of_soup E self soup u) \<noteq> None
   \<and> specifications (product_of_soup E self soup u) \<noteq> None
   \<and> ((\<forall>s \<in> set title_selectors. select soup s = []) \<and> find_all soup ''h1'' = [] \<longrightarrow>
        title (product_of_soup E self soup u) = Some ''N/A'')
   \<and> ((\<forall>s \<in> set price_selectors. select soup s = []) \<and> findall price_pattern 0 (markup soup) = [] \<longrightarrow>
        price (product_of_soup E self soup u) = Some ''N/A'')
   \<and> ((\<forall>s \<in> set original_price_selectors. select soup s = []) \<longrightarrow>
        original_price (product_of_soup E self soup u) = price (product_of_soup E self soup u))
   \<and> ((\<forall>s \<in> set sku_selectors. select soup s = []) \<and> findall sku_pattern 0 (markup soup) = [] \<longrightarrow>
        sku (product_of_soup E self soup u) = Some ''N/A'')
   \<and> ((\<forall>s \<in> set description_selectors. select soup s = [])
        \<and> (\<forall>m. find_meta_description soup = Some m \<longrightarrow> \<not> truthy (attrs m ''content'')) \<longrightarrow>
        description (product_of_soup E self soup u) = Some ''N/A'')
   \<and> ((\<forall>s \<in> set image_selectors. select soup s = [])
        \<and> (\<forall>img \<in> set (find_all soup ''img''). \<forall>a. img_url_of img = Some a \<longrightarrow>
              \<not> contains ''product'' (lower a) \<and> \<not> contains ''item'' (lower a)) \<longrightarrow>
        images (product_of_soup E self soup u) = Some [])
   \<and> ((\<forall>s \<in> set spec_selectors. select soup s = []) \<longrightarrow>
        specifications (product_of_soup E self soup u) = Some [])"
proof (intro conjI impI; (elim conjE)?)
  assume "\<forall>s \<in> set title_selectors. select soup s = []" "find_all soup ''h1'' = []"
  then show "title (product_of_soup E self soup u) = Some ''N/A''"
    using first_match_none [of title_selectors soup]
    by (simp add: product_of_soup_eq title_value_def)
next
  assume "\<forall>s \<in> set price_selectors. select soup s = []"
    "findall price_pattern 0 (markup soup) = []"
  then show "price (product_of_soup E self soup u) = Some ''N/A''"
    using first_match_none [of price_selectors soup]
    by (simp add: product_of_soup_eq price_value_def)
next
  assume "\<forall>s \<in> set original_price_selectors. select soup s = []"
  then show "original_price (product_of_soup E self soup u) = price (product_of_soup E self soup u)"
    using first_match_none [of original_price_selectors soup]
    by (simp add: product_of_soup_eq original_price_value_def)
next
  assume "\<forall>s \<in> set sku_selectors. select soup s = []"
    "findall sku_pattern 0 (markup soup) = []"
  then show "sku (product_of_soup E self soup u) = Some ''N/A''"
    using first_match_none [of sku_selectors soup]
    by (simp add: product_of_soup_eq sku_value_def)
next
  assume "\<forall>s \<in> set description_selectors. select soup s = []"
    "\<forall>m. find_meta_description soup = Some m \<longrightarrow> \<not> truthy (attrs m ''content'')"
  then show "description (product_of_soup E self soup u) = Some ''N/A''"
    using first_match_none [of description_selectors soup]
    by (auto simp add: product_of_soup_eq description_value_def truthy_def split: option.splits)
next
  assume "\<forall>s \<in> set image_selectors. select soup s = []"
    "\<forall>img \<in> set (find_all soup ''img''). \<forall>a. img_url_of img = Some a \<longrightarrow>
        \<not> contains ''product'' (lower a) \<and> \<not> contains ''item'' (lower a)"
  then show "images (product_of_soup E self soup u) = Some []"
    by (simp add: product_of_soup_eq images_value_def images_loop_none generic_none)
next
  assume "\<forall>s \<in> set spec_selectors. select soup s = []"
  then show "specifications (product_of_soup E self soup u) = Some []"
    by (simp add: product_of_soup_eq specs_loop_none)
qed (simp_all add: product_of_soup_eq)

text \<open>An instance: on the page in no known template every field takes its default.\<close>

theorem unmatched_fields_resolve_to_defaults_witness:
  "list_all (\<lambda>s. select bare_page s = [])
     (title_selectors @ price_selectors @ original_price_selectors @ sku_selectors
        @ description_selectors @ image_selectors @ spec_selectors)
   \<and> find_all bare_page ''h1'' = [] \<and> findall price_pattern 0 (markup bare_page) = []
   \<and> findall sku_pattern 0 (markup bare_page) = [] \<and> find_meta_description bare_page = None
   \<and> find_all bare_page ''img'' = []
   \<and> product_of_soup ex_env ex_self bare_page ''https://shop.example/p/5''
     = \<lparr>title = Some ''N/A'', price = Some ''N/A'', original_price = Some ''N/A'',
        sku = Some ''N/A'', description = Some ''N/A'', images = Some [],
        specifications = Some [], url = Some ''https://shop.example/p/5''\<rparr>"
proof -
  let ?P = "product_of_soup ex_env ex_self bare_page ''https://shop.example/p/5''"
  have sel: "select bare_page s = []" for s
    by (simp add: bare_page_def page_simps)
  have fa: "find_all bare_page n = []" for n
    by (simp add: bare_page_def page_simps)
  have rx: "findall price_pattern 0 (markup bare_page) = []"
      "findall sku_pattern 0 (markup bare_page) = []"
    by (code_simp)+
  have md: "find_meta_description bare_page = None"
    by (simp add: find_meta_description_def fa)
  have u: "url ?P = Some ''https://shop.example/p/5''"
    by (simp add: product_of_soup_eq)
  have "title ?P = Some ''N/A'' \<and> price ?P = Some ''N/A'' \<and> original_price ?P = Some ''N/A''
      \<and> sku ?P = Some ''N/A'' \<and> description ?P = Some ''N/A'' \<and> images ?P = Some []
      \<and> specifications ?P = Some []"
    using unmatched_fields_resolve_to_defaults
      [of ex_env ex_self bare_page "''https://shop.example/p/5''"]
    by (simp add: sel fa rx md)
  with u have "?P = \<lparr>title = Some ''N/A'', price = Some ''N/A'', original_price = Some ''N/A'',
        sku = Some ''N/A'', description = Some ''N/A'', images = Some [],
        specifications = Some [], url = Some ''https://shop.example/p/5''\<rparr>"
    by (cases ?P) simp
  then show ?thesis
    by (simp add: sel fa rx md list_all_iff)
qed

text \<open>
  The claim as stated fails for the title, which has no pattern to fall back on: no title
  selector matches the page whose only heading carries no class, and the title is that
  heading's text, not the sentinel.
\<close>

theorem unmatched_fields_resolve_to_defaults_counterexample:
  "list_all (\<lambda>s. select heading_page s = []) title_selectors
   \<and> title (product_of_soup ex_env ex_self heading_page ''https://shop.example/p/4'') = Some ''Sofa''"
  by code_simp

section \<open>The sale-absence default\<close>

text \<open>
  Claim C4. On every product page where no old-price selector matches any element, the
  assembled record binds \<^verbatim>\<open>original_price\<close> to the very value it binds \<^verbatim>\<open>price\<close> to,
  whatever that value is (a cleaned price, a match of the price pattern or the sentinel).
\<close>

theorem original_price_defaults_to_price:
  assumes "\<forall>s \<in> set original_price_selectors. select soup s = []"
  shows "original_price (product_of_soup E self soup u) = price (product_of_soup E self soup u)
     \<and> price (product_of_soup E self soup u) \<noteq> None"
  using first_match_none [OF assms]
  by (simp add: product_of_soup_eq original_price_value_def)

theorem original_price_defaults_to_price_witness:
  "list_all (\<lambda>s. select sofa_a_page s = []) original_price_selectors
   \<and> original_price (product_of_soup ex_env ex_self sofa_a_page ''https://shop.example/p/1'')
       = price (product_of_soup ex_env ex_self sofa_a_page ''https://shop.example/p/1'')
   \<and> price (product_of_soup ex_env ex_self sofa_a_page ''https://shop.example/p/1'') \<noteq> None"
proof -
  have h: "\<forall>s \<in> set original_price_selectors. select sofa_a_page s = []"
    by code_simp
  show ?thesis
    using h original_price_defaults_to_price [OF h] by (simp add: list_all_iff)
qed

section \<open>The format of the price\<close>

text \<open>
  Claim C10. The price has two formats. On every page where some price selector matches,
  the price consists of digits, commas and periods only. On every page where no price
  selector matches and the price pattern matches the page's text, the price is the first
  match as it stands, and it begins with the dollar sign.
\<close>

theorem price_format_depends_on_strategy:
  "((\<exists>s \<in> set price_selectors. select soup s \<noteq> []) \<longrightarrow>
      (\<exists>p. price (product_of_soup E self soup u) = Some p
         \<and> (\<forall>c \<in> set p. is_digit c \<or> c = CHR '','' \<or> c = CHR ''.'')))
   \<and> ((\<forall>s \<in> set price_selectors. select soup s = []) \<and> findall price_pattern 0 (markup soup) = m # ms \<longrightarrow>
      price (product_of_soup E self soup u) = Some m \<and> (\<exists>r. m = CHR ''$'' # r))"
proof (intro conjI impI; (elim conjE)?)
  assume "\<exists>s \<in> set price_selectors. select soup s \<noteq> []"
  then obtain e where "first_match soup price_selectors = Some e"
    using first_match_some by blast
  then have "price (product_of_soup E self soup u) = Some (clean_price (strip (get_text e)))"
    by (simp add: product_of_soup_eq price_value_def)
  moreover have "\<forall>c \<in> set (clean_price (strip (get_text e))). is_digit c \<or> c = CHR '','' \<or> c = CHR ''.''"
    by (auto simp: clean_price_def)
  ultimately show "\<exists>p. price (product_of_soup E self soup u) = Some p
         \<and> (\<forall>c \<in> set p. is_digit c \<or> c = CHR '','' \<or> c = CHR ''.'')"
    by blast
next
  assume a: "\<forall>s \<in> set price_selectors. select soup s = []"
    "findall price_pattern 0 (markup soup) = m # ms"
  then show "price (product_of_soup E self soup u) = Some m"
    using first_match_none [of price_selectors soup]
    by (simp add: product_of_soup_eq price_value_def)
  show "\<exists>r. m = CHR ''$'' # r"
    using findall_price_dollar [of 0 "markup soup"] a(2) by simp
qed

text \<open>An instance of each format.\<close>

theorem price_format_depends_on_strategy_witness:
  "map get_text (select sofa_a_page (hd price_selectors)) = [''$100.00'']
   \<and> price (product_of_soup ex_env ex_self sofa_a_page ''https://shop.example/p/1'') = Some ''100.00''
   \<and> list_all (\<lambda>s. select offer_page s = []) price_selectors
   \<and> findall price_pattern 0 (markup offer_page) = [''$45.50'']
   \<and> price (product_of_soup ex_env ex_self offer_page ''https://shop.example/p/6'') = Some ''$45.50''"
proof -
  have a: "\<exists>s \<in> set price_selectors. select sofa_a_page s \<noteq> []"
    by (simp add: price_selectors_def sofa_a_page_def page_simps)
  have b: "\<forall>s \<in> set price_selectors. select offer_page s = []"
    by (simp add: offer_page_def page_simps)
  have c: "findall price_pattern 0 (markup offer_page) = [''$45.50'']"
      "map get_text (select sofa_a_page (hd price_selectors)) = [''$100.00'']"
      "price (product_of_soup ex_env ex_self sofa_a_page ''https://shop.example/p/1'') = Some ''100.00''"
    by (code_simp)+
  show ?thesis
    using price_format_depends_on_strategy
        [where soup = sofa_a_page and E = ex_env and self = ex_self
           and u = "''https://shop.example/p/1''"]
      price_format_depends_on_strategy
        [where soup = offer_page and m = "''$45.50''" and ms = "[]" and E = ex_env
           and self = ex_self and u = "''https://shop.example/p/6''"]
      a b c
    by (simp add: list_all_iff)
qed

section \<open>The links of a listing page\<close>

lemma remdups_skip:
  "x \<in> set zs \<Longrightarrow> remdups (ys @ x # zs) = remdups (ys @ zs)"
  by (induction ys) auto

lemma first_occurrences_seen:
  "x \<in> set acc \<Longrightarrow> first_occurrences (acc @ x # rest) = first_occurrences (acc @ rest)"
  by (simp add: first_occurrences_def remdups_skip)

lemma first_occurrences_distinct:
  "distinct acc \<Longrightarrow> first_occurrences acc = acc"
  by (simp add: first_occurrences_def distinct_remdups_id)

lemma links_loop_eq:
  "distinct acc \<Longrightarrow>
   links_loop E self cards acc = first_occurrences (acc @ card_urls E self cards)"
proof (induction cards arbitrary: acc)
  case Nil
  then show ?case by (simp add: card_urls_def first_occurrences_distinct)
next
  case (Cons c cards)
  show ?case
  proof (cases "href_of (card_link c)")
    case None
    with Cons show ?thesis by (simp add: card_urls_def)
  next
    case (Some href)
    let ?u = "urljoin E (base_url self) href"
    have cu: "card_urls E self (c # cards) = ?u # card_urls E self cards"
      using Some by (simp add: card_urls_def)
    show ?thesis
    proof (cases "?u \<in> set acc")
      case True
      then show ?thesis
        using Some Cons cu by (simp add: first_occurrences_seen)
    next
      case False
      then have "distinct (acc @ [?u])" using Cons.prems by simp
      from Cons.IH [OF this] show ?thesis
        using Some False cu by simp
    qed
  qed
qed

lemma generic_links_loop_eq:
  "distinct acc \<Longrightarrow>
   generic_links_loop E self links acc = first_occurrences (acc @ generic_urls E self links)"
proof (induction links arbitrary: acc)
  case Nil
  then show ?case by (simp add: generic_urls_def first_occurrences_distinct)
next
  case (Cons l links)
  show ?case
  proof (cases "attrs l ''href''")
    case None
    with Cons show ?thesis by (simp add: generic_urls_def)
  next
    case (Some href)
    let ?u = "urljoin E (base_url self) href"
    show ?thesis
    proof (cases "href \<noteq> [] \<and> (contains ''product'' href \<or> contains ''/p/'' href)")
      case False
      with Some Cons show ?thesis by (auto simp add: generic_urls_def)
    next
      case keep: True
      have cu: "generic_urls E self (l # links) = ?u # generic_urls E self links"
        using Some keep by (simp add: generic_urls_def)
      show ?thesis
      proof (cases "?u \<in> set acc")
        case True
        then show ?thesis
          using Some keep Cons cu by (simp add: first_occurrences_seen)
      next
        case False
        then have "distinct (acc @ [?u])" using Cons.prems by simp
        from Cons.IH [OF this] show ?thesis
          using Some keep False cu by simp
      qed
    qed
  qed
qed

lemma first_occurrences_Nil_iff: "first_occurrences xs = [] \<longleftrightarrow> xs = []"
  by (simp add: first_occurrences_def)

lemma distinct_first_occurrences: "distinct (first_occurrences xs)"
  by (simp add: first_occurrences_def)

text \<open>
  Claim C5. On every listing page the list of product addresses that
  \<^verbatim>\<open>scrape_category_page\<close> goes on to fetch has no duplicate: it is the sequence of the
  resolved addresses of the cards (or, when the cards give none, of the generic search over
  every anchor), each address kept at its first occurrence and dropped at every later one.
\<close>

theorem product_links_are_distinct:
  "distinct (find_product_links E self soup)
   \<and> find_product_links E self soup =
       (if card_urls E self (find_product_cards soup) = []
        then first_occurrences (generic_urls E self (find_all soup ''a''))
        else first_occurrences (card_urls E self (find_product_cards soup)))"
proof -
  have eq: "find_product_links E self soup =
       (if card_urls E self (find_product_cards soup) = []
        then first_occurrences (generic_urls E self (find_all soup ''a''))
        else first_occurrences (card_urls E self (find_product_cards soup)))"
    by (simp add: find_product_links_def Let_def links_loop_eq generic_links_loop_eq
        first_occurrences_Nil_iff first_occurrences_distinct)
  then show ?thesis
    by (simp add: distinct_first_occurrences)
qed

text \<open>An instance: three cards, the third leading where the first leads.\<close>

theorem product_links_are_distinct_witness:
  "card_urls ex_env ex_self (find_product_cards repeat_page)
     = [''https://shop.example/p/1'', ''https://shop.example/p/2'', ''https://shop.example/p/1'']
   \<and> find_product_links ex_env ex_self repeat_page
     = [''https://shop.example/p/1'', ''https://shop.example/p/2'']"
proof -
  have c: "card_urls ex_env ex_self (find_product_cards repeat_page)
     = [''https://shop.example/p/1'', ''https://shop.example/p/2'', ''https://shop.example/p/1'']"
    by code_simp
  have f: "first_occurrences
       [''https://shop.example/p/1'', ''https://shop.example/p/2'', ''https://shop.example/p/1'']
     = [''https://shop.example/p/1'', ''https://shop.example/p/2'']"
    by code_simp
  show ?thesis
    using product_links_are_distinct [of ex_env ex_self repeat_page] c f by simp
qed

section \<open>The numeric pagination heuristic\<close>

text \<open>
  Claim C6 asks that, when no next-link selector matches, an address with a
  \<^verbatim>\<open>page=<integer>\<close> component comes back with that integer raised by one. The code
  reads the integer of the leftmost occurrence of \<^verbatim>\<open>page=<digits>\<close> but rewrites every
  occurrence, also one inside another parameter's name: on the listing without a next link,
  the second page at 24 products per page is sent on to a third page at 3 per page.
\<close>

theorem next_page_url_rewrites_every_page_parameter:
  "next_link_loop ex_env ex_self (BeautifulSoup ex_env listing_html) next_link_selectors = None
   \<and> get_next_page_url ex_env ex_self ''https://shop.example/sofas?page=2&per_page=24'' listing_html
     = Some ''https://shop.example/sofas?page=3&per_page=3''"
  by code_simp

section \<open>The exporters\<close>

text \<open>
  Claim C7. With an empty aggregate the tabular exporter writes no file and prints its
  notice, while the structured exporter writes its file whatever the aggregate is (the empty
  array for the empty aggregate); with a non-empty aggregate the tabular exporter writes its
  file too, one row per record.
\<close>

theorem exporters_on_empty_and_filled_aggregate:
  "(all_products self = [] \<longrightarrow>
      files (save_to_csv self csv_name w) = files w
      \<and> console (save_to_csv self csv_name w) = console w @ [''No products to save''])
   \<and> files (save_to_json self json_name w) json_name = Some (JsonArray (all_products self))
   \<and> (all_products self \<noteq> [] \<longrightarrow>
      (\<exists>header rows. files (save_to_csv self csv_name w) csv_name = Some (CsvTable header rows)
         \<and> length rows = length (all_products self)))"
  by (simp add: save_to_csv_def save_to_json_def Let_def)

text \<open>An instance: both exporters on a fresh scraper and on one that holds a record.\<close>

theorem exporters_on_empty_and_filled_aggregate_witness:
  "files (save_to_csv ex_self ''jennifer_products.csv'' no_output) ''jennifer_products.csv'' = None
   \<and> console (save_to_csv ex_self ''jennifer_products.csv'' no_output) = [''No products to save'']
   \<and> files (save_to_json ex_self ''jennifer_products.json'' no_output) ''jennifer_products.json''
       = Some (JsonArray [])
   \<and> files (save_to_json (ex_self\<lparr>all_products := [oak_table]\<rparr>) ''jennifer_products.json'' no_output)
       ''jennifer_products.json'' = Some (JsonArray [oak_table])
   \<and> files (save_to_csv (ex_self\<lparr>all_products := [oak_table]\<rparr>) ''jennifer_products.csv'' no_output)
       ''jennifer_products.csv''
       = Some (CsvTable
           [''title'', ''price'', ''original_price'', ''sku'', ''description'', ''url'',
            ''spec_Material'', ''images'']
           [[''Oak Table'', ''1,299.00'', ''1,499.00'', ''OT-100'', ''Solid oak.'',
             ''https://shop.example/p/9'', ''Oak'',
             ''https://shop.example/img/oak.jpg; https://shop.example/img/oak-2.jpg'']])"
proof -
  have e: "all_products ex_self = []" by (simp add: ex_self_def init_def)
  have n: "all_products (ex_self\<lparr>all_products := [oak_table]\<rparr>) \<noteq> []" by simp
  have c: "files (save_to_csv (ex_self\<lparr>all_products := [oak_table]\<rparr>) ''jennifer_products.csv'' no_output)
       ''jennifer_products.csv''
       = Some (CsvTable
           [''title'', ''price'', ''original_price'', ''sku'', ''description'', ''url'',
            ''spec_Material'', ''images'']
           [[''Oak Table'', ''1,299.00'', ''1,499.00'', ''OT-100'', ''Solid oak.'',
             ''https://shop.example/p/9'', ''Oak'',
             ''https://shop.example/img/oak.jpg; https://shop.example/img/oak-2.jpg'']])"
    by code_simp
  show ?thesis
    using exporters_on_empty_and_filled_aggregate
        [of ex_self "''jennifer_products.csv''" no_output "''jennifer_products.json''"]
      exporters_on_empty_and_filled_aggregate
        [of "ex_self\<lparr>all_products := [oak_table]\<rparr>" "''jennifer_products.csv''" no_output
          "''jennifer_products.json''"]
      e n c
    by (simp add: no_output_def)
qed

section \<open>The crawl\<close>

text \<open>Only the base address of the object is read by the functions the crawl calls.\<close>

lemma append_img_urls_self:
  "append_img_urls E (self\<lparr>all_products := ps\<rparr>) imgs acc = append_img_urls E self imgs acc"
  by (induction imgs arbitrary: acc) (simp_all split: option.splits)

lemma images_loop_self:
  "images_loop E (self\<lparr>all_products := ps\<rparr>) soup sels acc = images_loop E self soup sels acc"
  by (induction sels) (simp_all add: Let_def append_img_urls_self)

lemma append_generic_img_urls_self:
  "append_generic_img_urls E (self\<lparr>all_products := ps\<rparr>) imgs acc
     = append_generic_img_urls E self imgs acc"
  by (induction imgs arbitrary: acc) (simp_all split: option.splits)

lemma product_of_soup_self:
  "product_of_soup E (self\<lparr>all_products := ps\<rparr>) soup u = product_of_soup E self soup u"
  by (simp add: product_of_soup_def extract_images_def images_loop_self
      append_generic_img_urls_self Let_def cong: if_cong)

lemma parse_product_page_self:
  "parse_product_page E (self\<lparr>all_products := ps\<rparr>) fetched u = parse_product_page E self fetched u"
  by (simp add: parse_product_page_def product_of_soup_self split: prod.splits option.splits)

lemma links_loop_self:
  "links_loop E (self\<lparr>all_products := ps\<rparr>) cards acc = links_loop E self cards acc"
  by (induction cards arbitrary: acc) (simp_all add: Let_def split: option.splits)

lemma generic_links_loop_self:
  "generic_links_loop E (self\<lparr>all_products := ps\<rparr>) links acc = generic_links_loop E self links acc"
  by (induction links arbitrary: acc) (simp_all add: Let_def split: option.splits)

lemma find_product_links_self:
  "find_product_links E (self\<lparr>all_products := ps\<rparr>) soup = find_product_links E self soup"
  by (simp add: find_product_links_def links_loop_self generic_links_loop_self Let_def
      cong: if_cong)

lemma products_loop_self:
  "products_loop E (self\<lparr>all_products := ps\<rparr>) links products fetched
     = products_loop E self links products fetched"
  by (induction links arbitrary: products fetched)
    (simp_all add: parse_product_page_self split: prod.splits option.splits)

lemma scrape_category_page_self:
  "scrape_category_page E (self\<lparr>all_products := ps\<rparr>) fetched u
     = scrape_category_page E self fetched u"
  by (simp add: scrape_category_page_def find_product_links_self products_loop_self
      split: prod.splits option.splits)

lemma next_link_loop_self:
  "next_link_loop E (self\<lparr>all_products := ps\<rparr>) soup sels = next_link_loop E self soup sels"
  by (induction sels) (simp_all split: option.splits)

lemma get_next_page_url_self:
  "get_next_page_url E (self\<lparr>all_products := ps\<rparr>) u html = get_next_page_url E self u html"
  by (simp add: get_next_page_url_def next_link_loop_self)

lemmas self_simps = scrape_category_page_self get_next_page_url_self

lemma crawl_loop_at_reached_page:
  "page_reached E max_pages self0 fetched0 start_url st \<Longrightarrow>
   (case st of (self, fetched, cur, page_count) \<Rightarrow>
      crawl_loop E max_pages self fetched (Some cur) page_count)
     = crawl_loop E max_pages self0 fetched0 (Some start_url) 0"
proof (induction rule: page_reached.induct)
  case first_page
  show ?case by simp
next
  case (next_page self fetched cur page_count html products fetched2 next_url)
  have "crawl_loop E max_pages self fetched (Some cur) page_count
      = crawl_loop E max_pages (self\<lparr>all_products := all_products self @ products\<rparr>) fetched2
          (Some next_url) (page_count + 1)"
    using next_page.hyps(2-8)
    by (subst crawl_loop.simps) (simp add: get_page_html_def get_next_page_url_self)
  with next_page.IH show ?case by simp
qed

text \<open>
  Claim C3. In every crawl, if at some listing page the crawl stands at (its address not
  empty, fewer than \<^verbatim>\<open>max_pages\<close> pages done, the page fetched) the pagination resolver
  returns the page's own address, then the crawl ends there: it returns the state reached
  when that page was scanned, the aggregate extended by that page's records and the
  requests ending with those of that scan. No request follows, neither for that address
  nor for any other listing page.
\<close>

theorem loop_guard_stops_crawl:
  assumes "page_reached E max_pages self0 fetched0 start_url (self, fetched, cur, page_count)"
    and "cur \<noteq> []" and "page_count < max_pages"
    and "http_get E fetched cur = Some html" and "html \<noteq> []"
    and "scrape_category_page E self (fetched @ [cur]) cur = (products, fetched2)"
    and "get_next_page_url E self cur html = Some cur"
  shows "scrape_multiple_pages E self0 fetched0 start_url max_pages
     = (self\<lparr>all_products := all_products self @ products\<rparr>, fetched2)"
proof -
  have "crawl_loop E max_pages self fetched (Some cur) page_count
      = (self\<lparr>all_products := all_products self @ products\<rparr>, fetched2)"
    using assms(2-7)
    by (subst crawl_loop.simps) (simp add: get_page_html_def get_next_page_url_self)
  then show ?thesis
    using crawl_loop_at_reached_page [OF assms(1)] by (simp add: scrape_multiple_pages_def)
qed

lemmas site_simps = ex_env_def ex_site_def ex_self_def init_def

text \<open>An instance: with four pages allowed, a crawl from the listing that leads to the last
  one ends after two pages.\<close>

theorem loop_guard_stops_crawl_witness:
  "get_next_page_url ex_env ex_self ''https://shop.example/new'' new_html
     = Some ''https://shop.example/chairs''
   \<and> get_next_page_url ex_env ex_self ''https://shop.example/chairs'' last_html
     = Some ''https://shop.example/chairs''
   \<and> map url (all_products (fst (scrape_multiple_pages ex_env ex_self []
         ''https://shop.example/new'' 4)))
     = [Some ''https://shop.example/p/1'', Some ''https://shop.example/p/2'']
   \<and> snd (scrape_multiple_pages ex_env ex_self [] ''https://shop.example/new'' 4)
     = [''https://shop.example/new'', ''https://shop.example/new'', ''https://shop.example/p/1'',
        ''https://shop.example/chairs'', ''https://shop.example/chairs'',
        ''https://shop.example/p/2'']"
proof -
  let ?N = "''https://shop.example/new''"
  let ?C = "''https://shop.example/chairs''"
  let ?a = "product_of_soup ex_env ex_self sofa_a_page ''https://shop.example/p/1''"
  let ?b = "product_of_soup ex_env ex_self sofa_b_page ''https://shop.example/p/2''"
  let ?f1 = "[?N, ?N, ''https://shop.example/p/1'']"
  have n: "?N \<noteq> []" "(0::int) < 4" "http_get ex_env [] ?N = Some new_html" "new_html \<noteq> []"
      "scrape_category_page ex_env ex_self ([] @ [?N]) ?N = ([?a], ?f1)"
      "get_next_page_url ex_env ex_self ?N new_html = Some ?C" "?C \<noteq> ?N"
    by (code_simp)+
  have c: "?C \<noteq> []" "(0::int) + 1 < 4" "http_get ex_env ?f1 ?C = Some last_html" "last_html \<noteq> []"
      "scrape_category_page ex_env (ex_self\<lparr>all_products := all_products ex_self @ [?a]\<rparr>)
         (?f1 @ [?C]) ?C = ([?b], ?f1 @ [?C, ?C, ''https://shop.example/p/2''])"
      "get_next_page_url ex_env (ex_self\<lparr>all_products := all_products ex_self @ [?a]\<rparr>)
         ?C last_html = Some ?C"
    by (code_simp)+
  have r: "page_reached ex_env 4 ex_self [] ?N
      (ex_self\<lparr>all_products := all_products ex_self @ [?a]\<rparr>, ?f1, ?C, 0 + 1)"
    by (rule next_page [OF first_page n])
  have u: "url ?a = Some ''https://shop.example/p/1''" "url ?b = Some ''https://shop.example/p/2''"
    by (simp_all add: product_of_soup_eq)
  have g: "get_next_page_url ex_env ex_self ?C last_html = Some ?C"
    by code_simp
  show ?thesis
    using loop_guard_stops_crawl [OF r c] n(6) g u
    by (simp add: ex_self_def init_def)
qed

lemma product_of_soup_not_empty:
  "product_of_soup E self soup u \<noteq> empty_product"
  by (simp add: product_of_soup_eq empty_product_def)

lemma parse_product_page_ok:
  "http_get E fetched u = Some h \<Longrightarrow> h \<noteq> [] \<Longrightarrow>
   parse_product_page E self fetched u
     = (Some (product_of_soup E self (BeautifulSoup E h) u), fetched @ [u])"
  by (simp add: parse_product_page_def get_page_html_def)

lemma single_page_crawl:
  assumes "start_url \<noteq> []"
    and "http_get E fetched start_url = Some html" and "html \<noteq> []"
    and "scrape_category_page E self (fetched @ [start_url]) start_url = (products, fetched2)"
  shows "scrape_multiple_pages E self fetched start_url 1
     = (self\<lparr>all_products := all_products self @ products\<rparr>, fetched2)"
proof -
  let ?self2 = "self\<lparr>all_products := all_products self @ products\<rparr>"
  have stop: "crawl_loop E 1 ?self2 fetched2 next_url 1 = (?self2, fetched2)" for next_url
    by (subst crawl_loop.simps) (simp split: option.splits)
  show ?thesis
    unfolding scrape_multiple_pages_def
    using assms by (subst crawl_loop.simps) (simp add: get_page_html_def Let_def stop)
qed

text \<open>
  Claim C8. A crawl with \<^verbatim>\<open>max_pages = 1\<close> from a fresh scraper over a listing page with
  exactly two cards that lead to two different product pages, each exposing a title and a
  price through the first selector of its list, returns exactly two records, with those
  titles and prices. The requests sent are those for the listing (by the loop and again by
  the scanner) and for the two product pages, and none after them, whether or not the
  listing names a next page.
\<close>

theorem one_page_two_products:
  assumes "start_url \<noteq> []"
    and "http_get E fetched start_url = Some html" and "html \<noteq> []"
    and "http_get E (fetched @ [start_url]) start_url = Some html2" and "html2 \<noteq> []"
    and "find_product_cards (BeautifulSoup E html2) = [c1, c2]"
    and "href_of (card_link c1) = Some h1" and "href_of (card_link c2) = Some h2"
    and "u1 = urljoin E (base_url self) h1" and "u2 = urljoin E (base_url self) h2"
    and "u1 \<noteq> u2"
    and "http_get E (fetched @ [start_url, start_url]) u1 = Some page1" and "page1 \<noteq> []"
    and "http_get E (fetched @ [start_url, start_url, u1]) u2 = Some page2" and "page2 \<noteq> []"
    and "select_one (BeautifulSoup E page1) (hd title_selectors) = Some t1"
    and "select_one (BeautifulSoup E page1) (hd price_selectors) = Some p1"
    and "select_one (BeautifulSoup E page2) (hd title_selectors) = Some t2"
    and "select_one (BeautifulSoup E page2) (hd price_selectors) = Some p2"
    and "all_products self = []"
  shows "(\<exists>r1 r2. all_products (fst (scrape_multiple_pages E self fetched start_url 1)) = [r1, r2]
        \<and> title r1 = Some (strip (get_text t1))
        \<and> price r1 = Some (clean_price (strip (get_text p1))) \<and> url r1 = Some u1
        \<and> title r2 = Some (strip (get_text t2))
        \<and> price r2 = Some (clean_price (strip (get_text p2))) \<and> url r2 = Some u2)
     \<and> snd (scrape_multiple_pages E self fetched start_url 1)
        = fetched @ [start_url, start_url, u1, u2]"
proof -
  let ?r1 = "product_of_soup E self (BeautifulSoup E page1) u1"
  let ?r2 = "product_of_soup E self (BeautifulSoup E page2) u2"
  have links: "find_product_links E self (BeautifulSoup E html2) = [u1, u2]"
    using assms(6-11) by (simp add: find_product_links_def Let_def)
  have f1: "parse_product_page E self (fetched @ [start_url, start_url]) u1
      = (Some ?r1, fetched @ [start_url, start_url, u1])"
    using parse_product_page_ok [OF assms(12,13)] by simp
  have f2: "parse_product_page E self (fetched @ [start_url, start_url, u1]) u2
      = (Some ?r2, fetched @ [start_url, start_url, u1, u2])"
    using parse_product_page_ok [OF assms(14,15)] by simp
  have "scrape_category_page E self (fetched @ [start_url]) start_url
      = ([?r1, ?r2], fetched @ [start_url, start_url, u1, u2])"
    using assms(4,5) links f1 f2
    by (simp add: scrape_category_page_def get_page_html_def product_of_soup_not_empty)
  from single_page_crawl [OF assms(1-3) this]
  have res: "scrape_multiple_pages E self fetched start_url 1
      = (self\<lparr>all_products := [?r1, ?r2]\<rparr>, fetched @ [start_url, start_url, u1, u2])"
    using assms(20) by simp
  have t1: "title ?r1 = Some (strip (get_text t1))"
    using first_match_first [OF hd_selectors(1) assms(16)]
    by (simp add: product_of_soup_eq title_value_def)
  have p1: "price ?r1 = Some (clean_price (strip (get_text p1)))"
    using first_match_first [OF hd_selectors(2) assms(17)]
    by (simp add: product_of_soup_eq price_value_def)
  have t2: "title ?r2 = Some (strip (get_text t2))"
    using first_match_first [OF hd_selectors(1) assms(18)]
    by (simp add: product_of_soup_eq title_value_def)
  have p2: "price ?r2 = Some (clean_price (strip (get_text p2)))"
    using first_match_first [OF hd_selectors(2) assms(19)]
    by (simp add: product_of_soup_eq price_value_def)
  have u: "url ?r1 = Some u1" "url ?r2 = Some u2"
    by (simp_all add: product_of_soup_eq)
  show ?thesis
    using res t1 p1 t2 p2 u by simp
qed

text \<open>An instance: the listing with two cards on the example site.\<close>

theorem one_page_two_products_witness:
  "map (\<lambda>c. href_of (card_link c)) (find_product_cards (BeautifulSoup ex_env listing_html))
     = [Some ''p/1'', Some ''p/2'']
   \<and> map title (all_products (fst (scrape_multiple_pages ex_env ex_self []
         ''https://shop.example/sofas'' 1))) = [Some ''Sofa A'', Some ''Sofa B'']
   \<and> map price (all_products (fst (scrape_multiple_pages ex_env ex_self []
         ''https://shop.example/sofas'' 1))) = [Some ''100.00'', Some ''250.00'']
   \<and> snd (scrape_multiple_pages ex_env ex_self [] ''https://shop.example/sofas'' 1)
     = [''https://shop.example/sofas'', ''https://shop.example/sofas'',
        ''https://shop.example/p/1'', ''https://shop.example/p/2'']"
proof -
  let ?L = "''https://shop.example/sofas''"
  have g: "http_get ex_env fs ?L = Some listing_html"
      "http_get ex_env fs ''https://shop.example/p/1'' = Some sofa_a_html"
      "http_get ex_env fs ''https://shop.example/p/2'' = Some sofa_b_html" for fs
    by (simp_all add: site_simps)
  have ne: "?L \<noteq> []" "listing_html \<noteq> []" "sofa_a_html \<noteq> []" "sofa_b_html \<noteq> []"
      "''https://shop.example/p/1'' \<noteq> ''https://shop.example/p/2''"
    by (simp_all add: listing_html_def sofa_a_html_def sofa_b_html_def)
  have bs: "BeautifulSoup ex_env listing_html = listing_page"
      "BeautifulSoup ex_env sofa_a_html = sofa_a_page"
      "BeautifulSoup ex_env sofa_b_html = sofa_b_page"
    by (simp_all add: site_simps listing_html_def new_html_def last_html_def sofa_a_html_def
        sofa_b_html_def)
  obtain c1 c2 where c: "find_product_cards listing_page = [c1, c2]"
      "href_of (card_link c1) = Some ''p/1''" "href_of (card_link c2) = Some ''p/2''"
    by (simp add: find_product_cards_def cards_loop.simps product_selectors_def listing_page_def
        page_simps href_of_def card_link_def link_selectors_def truthy_def)
  have u: "''https://shop.example/p/1'' = urljoin ex_env (base_url ex_self) ''p/1''"
      "''https://shop.example/p/2'' = urljoin ex_env (base_url ex_self) ''p/2''"
    by (simp_all add: site_simps)
  obtain t1 p1 where a: "select_one sofa_a_page (hd title_selectors) = Some t1"
      "select_one sofa_a_page (hd price_selectors) = Some p1"
      "get_text t1 = ''Sofa A''" "get_text p1 = ''$100.00''"
    by (simp add: sofa_a_page_def title_selectors_def price_selectors_def page_simps)
  obtain t2 p2 where b: "select_one sofa_b_page (hd title_selectors) = Some t2"
      "select_one sofa_b_page (hd price_selectors) = Some p2"
      "get_text t2 = ''Sofa B''" "get_text p2 = ''$250.00''"
    by (simp add: sofa_b_page_def title_selectors_def price_selectors_def page_simps)
  have fresh: "all_products ex_self = []"
    by (simp add: site_simps)
  have ev: "strip ''Sofa A'' = ''Sofa A''" "strip ''Sofa B'' = ''Sofa B''"
      "clean_price (strip ''$100.00'') = ''100.00''" "clean_price (strip ''$250.00'') = ''250.00''"
      "map (\<lambda>c. href_of (card_link c)) (find_product_cards listing_page)
         = [Some ''p/1'', Some ''p/2'']"
    by (code_simp)+
  from one_page_two_products [where E = ex_env and self = ex_self and fetched = "[]"
      and start_url = ?L and html = listing_html and ?html2.0 = listing_html
      and ?c1.0 = c1 and ?c2.0 = c2 and ?h1.0 = "''p/1''" and ?h2.0 = "''p/2''"
      and ?u1.0 = "''https://shop.example/p/1''" and ?u2.0 = "''https://shop.example/p/2''"
      and ?page1.0 = sofa_a_html and ?page2.0 = sofa_b_html
      and ?t1.0 = t1 and ?p1.0 = p1 and ?t2.0 = t2 and ?p2.0 = p2,
      OF ne(1) g(1) ne(2) g(1) ne(2) c [unfolded bs(1) [symmetric]] u ne(5) g(2) ne(3) g(3) ne(4)
        a(1,2) [unfolded bs(2) [symmetric]] b(1,2) [unfolded bs(3) [symmetric]] fresh]
  show ?thesis
    using a(3,4) b(3,4) by (auto simp add: ev bs)
qed

lemma crawl_loop_aggregate:
  "crawl_loop E max_pages (self\<lparr>all_products := acc\<rparr>) fetched current_url page_count
     = (case crawl_loop E max_pages (self\<lparr>all_products := []\<rparr>) fetched current_url page_count of
          (s, f) \<Rightarrow> (s\<lparr>all_products := acc @ all_products s\<rparr>, f))"
proof (induction E max_pages self fetched current_url page_count arbitrary: acc
    rule: crawl_loop.induct)
  case (1 E max_pages self fetched current_url page_count)
  show ?case
  proof (cases current_url)
    case None
    then show ?thesis by (simp add: crawl_loop.simps)
  next
    case (Some cur)
    show ?thesis
    proof (cases "cur = [] \<or> \<not> page_count < max_pages")
      case True
      with Some show ?thesis by (subst (1 2) crawl_loop.simps) auto
    next
      case go: False
      obtain html fetched1 where g: "get_page_html E fetched cur = (html, fetched1)"
        by (cases "get_page_html E fetched cur")
      show ?thesis
      proof (cases html)
        case None
        with Some go g show ?thesis
          by (subst (1 2) crawl_loop.simps) simp
      next
        case (Some h)
        note h = this
        show ?thesis
        proof (cases "h = []")
          case True
          with \<open>current_url = Some cur\<close> go g h show ?thesis
            by (subst (1 2) crawl_loop.simps) simp
        next
          case False
          obtain products fetched2 where
            sc: "scrape_category_page E self fetched1 cur = (products, fetched2)"
            by (cases "scrape_category_page E self fetched1 cur")
          let ?self2 = "self\<lparr>all_products := all_products self @ products\<rparr>"
          let ?next = "get_next_page_url E self cur h"
          show ?thesis
          proof (cases "?next = Some cur")
            case True
            with \<open>current_url = Some cur\<close> go g h False sc show ?thesis
              by (subst (1 2) crawl_loop.simps) (simp add: self_simps)
          next
            case nx: False
            have IH: "crawl_loop E max_pages (?self2\<lparr>all_products := a\<rparr>) fetched2 ?next (page_count + 1)
              = (case crawl_loop E max_pages (?self2\<lparr>all_products := []\<rparr>) fetched2 ?next (page_count + 1) of
                  (s, f) \<Rightarrow> (s\<lparr>all_products := a @ all_products s\<rparr>, f))" for a
              using "1.IH" [OF \<open>current_url = Some cur\<close> go g [symmetric] h False sc [symmetric] refl refl, of a]
                nx by (simp add: self_simps)
            have l: "crawl_loop E max_pages (self\<lparr>all_products := acc\<rparr>) fetched current_url page_count
                = crawl_loop E max_pages (self\<lparr>all_products := acc @ products\<rparr>) fetched2 ?next (page_count + 1)"
              using \<open>current_url = Some cur\<close> go g h False sc nx
              by (subst crawl_loop.simps) (simp add: self_simps)
            have r: "crawl_loop E max_pages (self\<lparr>all_products := []\<rparr>) fetched current_url page_count
                = crawl_loop E max_pages (self\<lparr>all_products := products\<rparr>) fetched2 ?next (page_count + 1)"
              using \<open>current_url = Some cur\<close> go g h False sc nx
              by (subst crawl_loop.simps) (simp add: self_simps)
            show ?thesis
              using IH [of "acc @ products"] IH [of products]
              by (simp add: l r split: prod.splits)
          qed
        qed
      qed
    qed
  qed
qed

lemma scanned_pages_self:
  "scanned_pages E max_pages (self\<lparr>all_products := ps\<rparr>) fetched current_url page_count
     = scanned_pages E max_pages self fetched current_url page_count"
proof (induction E max_pages self fetched current_url page_count rule: scanned_pages.induct)
  case (1 E max_pages self fetched current_url page_count)
  show ?case
    using "1.IH"
    by (subst (1 2) scanned_pages.simps)
      (simp add: self_simps split: option.splits prod.splits)
qed

lemma crawl_loop_scanned:
  "crawl_loop E max_pages self fetched current_url page_count
     = (self\<lparr>all_products := all_products self
            @ concat (scanned_pages E max_pages self fetched current_url page_count)\<rparr>,
        snd (crawl_loop E max_pages self fetched current_url page_count))"
proof (induction E max_pages self fetched current_url page_count rule: crawl_loop.induct)
  case (1 E max_pages self fetched current_url page_count)
  show ?case
  proof (cases current_url)
    case None
    then show ?thesis by (simp add: crawl_loop.simps scanned_pages.simps)
  next
    case (Some cur)
    show ?thesis
    proof (cases "cur = [] \<or> \<not> page_count < max_pages")
      case True
      with Some show ?thesis by (auto simp add: crawl_loop.simps scanned_pages.simps)
    next
      case go: False
      show ?thesis
      proof (cases "http_get E fetched cur")
        case None
        with Some go show ?thesis
          by (simp add: crawl_loop.simps scanned_pages.simps get_page_html_def)
      next
        case h: (Some html)
        show ?thesis
        proof (cases "html = []")
          case True
          with Some go h show ?thesis
            by (simp add: crawl_loop.simps scanned_pages.simps get_page_html_def)
        next
          case False
          obtain products fetched2 where
            sc: "scrape_category_page E self (fetched @ [cur]) cur = (products, fetched2)"
            by (cases "scrape_category_page E self (fetched @ [cur]) cur")
          let ?self2 = "self\<lparr>all_products := all_products self @ products\<rparr>"
          let ?next = "get_next_page_url E self cur html"
          show ?thesis
          proof (cases "?next = Some cur")
            case True
            with Some go h False sc show ?thesis
              by (simp add: crawl_loop.simps [of E max_pages self fetched]
                  scanned_pages.simps [of E max_pages self fetched] get_page_html_def self_simps)
          next
            case nx: False
            have g: "(Some html, fetched @ [cur]) = get_page_html E fetched cur"
              using h by (simp add: get_page_html_def)
            have IH: "crawl_loop E max_pages ?self2 fetched2 ?next (page_count + 1)
              = (?self2\<lparr>all_products := all_products ?self2
                    @ concat (scanned_pages E max_pages ?self2 fetched2 ?next (page_count + 1))\<rparr>,
                 snd (crawl_loop E max_pages ?self2 fetched2 ?next (page_count + 1)))"
              using "1.IH" [OF Some go g refl False sc [symmetric] refl refl] nx
              by (simp add: self_simps)
            have l: "crawl_loop E max_pages self fetched current_url page_count
                = crawl_loop E max_pages ?self2 fetched2 ?next (page_count + 1)"
              using Some go h False sc nx
              by (subst crawl_loop.simps) (simp add: get_page_html_def self_simps)
            have r: "scanned_pages E max_pages self fetched current_url page_count
                = products # scanned_pages E max_pages self fetched2 ?next (page_count + 1)"
              using Some go h False sc nx
              by (subst scanned_pages.simps) simp
            show ?thesis
              by (subst l, subst IH) (simp add: r l scanned_pages_self)
          qed
        qed
      qed
    qed
  qed
qed

text \<open>
  Claim C9, as amended. The aggregate belongs to the scraper object and is never cleared:
  an invocation returns the records the object held before, followed by exactly the records
  aggregated during this invocation, that is the records of every page scanned, page after
  page, none dropped and none repeated. What is scanned does not depend on the records held
  before, so the invocation appends what a scraper with an empty aggregate returns for the
  same crawl, and sends the same requests. Only on a fresh scraper does an invocation
  return exactly its own records.
\<close>

theorem crawl_extends_the_aggregate:
  "all_products (fst (scrape_multiple_pages E self fetched start_url max_pages))
     = all_products self @ concat (scanned_pages E max_pages self fetched (Some start_url) 0)
   \<and> base_url (fst (scrape_multiple_pages E self fetched start_url max_pages)) = base_url self
   \<and> scanned_pages E max_pages (self\<lparr>all_products := []\<rparr>) fetched (Some start_url) 0
     = scanned_pages E max_pages self fetched (Some start_url) 0
   \<and> all_products (fst (scrape_multiple_pages E self fetched start_url max_pages))
     = all_products self
       @ all_products (fst (scrape_multiple_pages E (self\<lparr>all_products := []\<rparr>) fetched start_url max_pages))
   \<and> snd (scrape_multiple_pages E self fetched start_url max_pages)
     = snd (scrape_multiple_pages E (self\<lparr>all_products := []\<rparr>) fetched start_url max_pages)"
proof -
  have a: "fst (scrape_multiple_pages E self fetched start_url max_pages)
      = self\<lparr>all_products := all_products self
          @ concat (scanned_pages E max_pages self fetched (Some start_url) 0)\<rparr>"
    unfolding scrape_multiple_pages_def
    by (subst crawl_loop_scanned) simp
  have b: "all_products (fst (scrape_multiple_pages E self fetched start_url max_pages))
     = all_products self
       @ all_products (fst (scrape_multiple_pages E (self\<lparr>all_products := []\<rparr>) fetched start_url max_pages))
   \<and> snd (scrape_multiple_pages E self fetched start_url max_pages)
     = snd (scrape_multiple_pages E (self\<lparr>all_products := []\<rparr>) fetched start_url max_pages)"
    using crawl_loop_aggregate [where E = E and max_pages = max_pages and self = self
      and acc = "all_products self" and fetched = fetched and current_url = "Some start_url"
      and page_count = 0]
    by (simp add: scrape_multiple_pages_def split: prod.splits)
  show ?thesis
    using b by (simp add: a scanned_pages_self)
qed

text \<open>An instance: a crawl over two listings on a scraper that already holds a record.\<close>

theorem crawl_extends_the_aggregate_witness:
  "map (map url) (scanned_pages ex_env 4 (ex_self\<lparr>all_products := [oak_table]\<rparr>) []
       (Some ''https://shop.example/new'') 0)
     = [[Some ''https://shop.example/p/1''], [Some ''https://shop.example/p/2'']]
   \<and> all_products (fst (scrape_multiple_pages ex_env (ex_self\<lparr>all_products := [oak_table]\<rparr>) []
       ''https://shop.example/new'' 4))
     = [oak_table,
        product_of_soup ex_env ex_self sofa_a_page ''https://shop.example/p/1'',
        product_of_soup ex_env ex_self sofa_b_page ''https://shop.example/p/2'']"
proof -
  have s: "scanned_pages ex_env 4 (ex_self\<lparr>all_products := [oak_table]\<rparr>) []
       (Some ''https://shop.example/new'') 0
     = [[product_of_soup ex_env ex_self sofa_a_page ''https://shop.example/p/1''],
        [product_of_soup ex_env ex_self sofa_b_page ''https://shop.example/p/2'']]"
    by code_simp
  have u: "url (product_of_soup ex_env ex_self sofa_a_page ''https://shop.example/p/1'')
       = Some ''https://shop.example/p/1''"
      "url (product_of_soup ex_env ex_self sofa_b_page ''https://shop.example/p/2'')
       = Some ''https://shop.example/p/2''"
    by (simp_all add: product_of_soup_eq)
  show ?thesis
    using crawl_extends_the_aggregate [of ex_env "ex_self\<lparr>all_products := [oak_table]\<rparr>" "[]"
        "''https://shop.example/new''" 4]
    by (simp add: s u)
qed

text \<open>
  The claim as stated fails: a second invocation on the same scraper, over another listing,
  returns the two records aggregated by the first one ahead of its own.
\<close>

theorem crawl_extends_the_aggregate_counterexample:
  "map url (all_products (fst (scrape_multiple_pages ex_env ex_self []
       ''https://shop.example/sofas'' 1)))
     = [Some ''https://shop.example/p/1'', Some ''https://shop.example/p/2'']
   \<and> map url (all_products (fst (scrape_multiple_pages ex_env
       (fst (scrape_multiple_pages ex_env ex_self [] ''https://shop.example/sofas'' 1))
       (snd (scrape_multiple_pages ex_env ex_self [] ''https://shop.example/sofas'' 1))
       ''https://shop.example/chairs'' 1)))
     = [Some ''https://shop.example/p/1'', Some ''https://shop.example/p/2'',
        Some ''https://shop.example/p/2'']"
  by code_simp

end
